theory Spec2Isabelle
  imports Main
begin

section \<open>JavaScript values\<close>

text \<open>
  The handler of \<^verbatim>\<open>supabase/functions/generate-notebook-content/index.ts\<close> works on
  untyped JSON: the request body, the rows returned by the store and the body of the
  generation service's response. A value is what \<^verbatim>\<open>JSON.parse\<close> returns, plus
  \<^verbatim>\<open>undefined\<close>, which reading a missing property yields. Numbers are only ever tested
  for truthiness by the handler, so a number is kept as an integer (zero is falsy;
  \<^verbatim>\<open>JSON.parse\<close> produces no NaN). Strings are byte strings (UTF-8).
\<close>

datatype jsval =
    JUndefined
  | JNull
  | JBool bool
  | JNum int
  | JStr string
  | JArr "jsval list"
  | JObj "(string \<times> jsval) list"

text \<open>JavaScript's ToBoolean, as used by \<^verbatim>\<open>!x\<close>, \<^verbatim>\<open>x || y\<close>, \<^verbatim>\<open>x && y\<close> and \<^verbatim>\<open>if (x)\<close>.\<close>

fun truthy :: "jsval \<Rightarrow> bool" where
  "truthy JUndefined = False"
| "truthy JNull = False"
| "truthy (JBool b) = b"
| "truthy (JNum n) = (n \<noteq> 0)"
| "truthy (JStr s) = (s \<noteq> [])"
| "truthy (JArr xs) = True"
| "truthy (JObj kvs) = True"

definition nullish :: "jsval \<Rightarrow> bool" where
  "nullish v = (v = JUndefined \<or> v = JNull)"

text \<open>
  Property read \<^verbatim>\<open>v.k\<close> for the property names the handler uses (none of them is a
  property of the built-in prototypes, so a string, number, boolean or array yields
  \<^verbatim>\<open>undefined\<close>). The keys of an object are distinct, as in a parsed object. Reading a property of \<^verbatim>\<open>null\<close> or \<^verbatim>\<open>undefined\<close> throws in
  JavaScript: every use below is either guarded by a truthiness test, as in the
  source, or preceded by an explicit \<open>nullish\<close> test that models the throw.
\<close>

fun get_prop :: "jsval \<Rightarrow> string \<Rightarrow> jsval" where
  "get_prop (JObj kvs) k = (case map_of kvs k of None \<Rightarrow> JUndefined | Some v \<Rightarrow> v)"
| "get_prop v k = JUndefined"

text \<open>Optional chaining \<^verbatim>\<open>v?.k\<close>.\<close>

definition opt_prop :: "jsval \<Rightarrow> string \<Rightarrow> jsval" where
  "opt_prop v k = (if nullish v then JUndefined else get_prop v k)"

text \<open>\<^verbatim>\<open>a || b\<close>.\<close>

definition js_or :: "jsval \<Rightarrow> jsval \<Rightarrow> jsval" where
  "js_or a b = (if truthy a then a else b)"

text \<open>
  \<^verbatim>\<open>JSON.stringify\<close> of an object literal: a property whose value is \<^verbatim>\<open>undefined\<close>
  is left out of the text. The body of a message is kept as the list of the
  properties that are written.
\<close>

definition stringify_obj :: "(string \<times> jsval) list \<Rightarrow> (string \<times> jsval) list" where
  "stringify_obj kvs = filter (\<lambda>kv. snd kv \<noteq> JUndefined) kvs"

section \<open>Responses\<close>

datatype body = Text string | Json "(string \<times> jsval) list"

record response =
  status :: nat
  headers :: "(string \<times> string) list"
  body :: body

definition corsHeaders :: "(string \<times> string) list" where
  "corsHeaders =
     [(''Access-Control-Allow-Origin'', ''*''),
      (''Access-Control-Allow-Headers'', ''authorization, x-client-info, apikey, content-type'')]"

text \<open>
  \<^verbatim>\<open>new Response(JSON.stringify(obj), { status, headers: { ...corsHeaders,
  'Content-Type': 'application/json' } })\<close>; a response built without a status has
  status 200.
\<close>

definition json_response :: "nat \<Rightarrow> (string \<times> jsval) list \<Rightarrow> response" where
  "json_response st obj =
     \<lparr>status = st,
      headers = corsHeaders @ [(''Content-Type'', ''application/json'')],
      body = Json (stringify_obj obj)\<rparr>"

definition error_response :: "nat \<Rightarrow> string \<Rightarrow> response" where
  "error_response st msg = json_response st [(''error'', JStr msg)]"

section \<open>The store and the effects of a run\<close>

text \<open>
  A row of the \<^verbatim>\<open>notebooks\<close> table maps column names to values; a row of the
  \<^verbatim>\<open>sources\<close> table is only read, through the columns the handler selects and the
  \<^verbatim>\<open>created_at\<close> column it orders by.
\<close>

type_synonym row = "string \<rightharpoonup> jsval"

record source =
  src_notebook_id :: jsval
  src_type :: string
  src_content :: jsval
  src_title :: jsval
  src_url :: jsval
  created_at :: int

text \<open>What a run does to the outside, in the order it does it.\<close>

datatype event =
    ReadBody
  | NotebookUpdate jsval "(string \<times> jsval) list"
  | SourceSelect "string list" jsval string
  | Fetch string string "(string \<times> jsval) list"

record world =
  notebooks :: "row list"
  sources :: "source list"
  effects :: "event list"

text \<open>
  An awaited store write resolves without an error, resolves with an error object
  (the row is then unchanged), or rejects.
\<close>

datatype write_outcome = Applied | Rejected | WriteThrows

datatype query_outcome = QueryOk | QueryError | QueryThrows

record service_response =
  resp_ok :: bool
  resp_text :: "string option"
  resp_json :: "jsval option"

text \<open>
  Everything the handler reads from outside the store: the environment variables,
  whether \<^verbatim>\<open>createClient\<close> returns, how the store answers each write and the query,
  and what \<^verbatim>\<open>fetch\<close> resolves to (\<open>None\<close>: it rejects). At most one of the six
  stage-failure writes runs in a request, so one field answers all of them; the
  write of the catch block has its own.
\<close>

record env =
  generation_url :: "string option"
  generation_auth :: "string option"
  client_first :: bool
  client_second :: bool
  write_generating :: write_outcome
  write_failed :: write_outcome
  write_completed :: write_outcome
  write_catch :: write_outcome
  query_result :: query_outcome
  fetch_result :: "service_response option"

text \<open>
  A request: its method and what \<^verbatim>\<open>await req.json()\<close> yields the first time (in the
  try block) and the second time (in the catch block); \<open>None\<close> when the promise
  rejects.
\<close>

record request =
  req_method :: string
  json_first :: "jsval option"
  json_second :: "jsval option"

text \<open>\<^verbatim>\<open>!Deno.env.get(name)\<close> is true for an unset variable and for the empty string.\<close>

definition env_truthy :: "string option \<Rightarrow> bool" where
  "env_truthy v = (case v of None \<Rightarrow> False | Some s \<Rightarrow> s \<noteq> [])"

text \<open>The string held by a variable; the handler uses it only after the test above.\<close>

definition env_string :: "string option \<Rightarrow> string" where
  "env_string v = (case v of None \<Rightarrow> [] | Some s \<Rightarrow> s)"

text \<open>
  \<^verbatim>\<open>supabaseClient.from('notebooks').update(patch).eq('id', nid)\<close>: the call is
  recorded; when the store applies it, every row whose id is \<open>nid\<close> takes the
  columns of the patch and keeps its other columns.
\<close>

definition apply_patch :: "jsval \<Rightarrow> (string \<times> jsval) list \<Rightarrow> row list \<Rightarrow> row list" where
  "apply_patch nid patch rows =
     map (\<lambda>r. if r ''id'' = Some nid then r ++ map_of patch else r) rows"

definition emit :: "event \<Rightarrow> world \<Rightarrow> world" where
  "emit ev w = w\<lparr>effects := effects w @ [ev]\<rparr>"

definition update_notebook ::
  "jsval \<Rightarrow> (string \<times> jsval) list \<Rightarrow> write_outcome \<Rightarrow> world \<Rightarrow> world" where
  "update_notebook nid patch out w =
     emit (NotebookUpdate nid patch)
       (w\<lparr>notebooks := (if out = Applied then apply_patch nid patch (notebooks w)
                        else notebooks w)\<rparr>)"

text \<open>The object \<^verbatim>\<open>{ generation_status: s }\<close>.\<close>

definition status_patch :: "string \<Rightarrow> (string \<times> jsval) list" where
  "status_patch s = [(''generation_status'', JStr s)]"

text \<open>
  \<^verbatim>\<open>.from('sources').select(cols).eq('notebook_id', nid).eq('type', ty)
  .order('created_at', { ascending: false }).limit(1).single()\<close>. The rows that match
  are ordered by \<^verbatim>\<open>created_at\<close>, latest first (rows created at the same instant keep
  their table order), and the first is kept; \<^verbatim>\<open>single()\<close> answers with the row when
  there is exactly one and with an error and no data otherwise.
\<close>

definition matching :: "source list \<Rightarrow> jsval \<Rightarrow> string \<Rightarrow> source list" where
  "matching rows nid ty = filter (\<lambda>r. src_notebook_id r = nid \<and> src_type r = ty) rows"

definition select_latest :: "source list \<Rightarrow> jsval \<Rightarrow> string \<Rightarrow> source list" where
  "select_latest rows nid ty = take 1 (sort_key (\<lambda>r. - created_at r) (matching rows nid ty))"

definition column :: "string \<Rightarrow> source \<Rightarrow> jsval" where
  "column c r =
     (if c = ''content'' then src_content r
      else if c = ''title'' then src_title r
      else if c = ''url'' then src_url r
      else JUndefined)"

definition project :: "string list \<Rightarrow> source \<Rightarrow> jsval" where
  "project cols r = JObj (map (\<lambda>c. (c, column c r)) cols)"

text \<open>The result is \<open>None\<close> when the query rejects, else the pair (data, error).\<close>

definition select_single ::
  "env \<Rightarrow> string list \<Rightarrow> jsval \<Rightarrow> string \<Rightarrow> world \<Rightarrow> world \<times> (jsval \<times> bool) option" where
  "select_single e cols nid ty w =
     (let w1 = emit (SourceSelect cols nid ty) w in
      case query_result e of
        QueryThrows \<Rightarrow> (w1, None)
      | QueryError \<Rightarrow> (w1, Some (JNull, True))
      | QueryOk \<Rightarrow>
          (case select_latest (sources w) nid ty of
             [r] \<Rightarrow> (w1, Some (project cols r, False))
           | _ \<Rightarrow> (w1, Some (JNull, True))))"

section \<open>The handler\<close>

text \<open>
  The try block yields the world it leaves and \<open>Some\<close> response when it returns,
  \<open>None\<close> when an exception escapes it.

  The six failure exits of the source (lines 75--83, 102--110, 121--129, 150--158,
  184--192 and 198--206) are the same two statements with a different message:
  write \<^verbatim>\<open>generation_status: 'failed'\<close>, then return status 500 with the message.
\<close>

definition mark_failed :: "env \<Rightarrow> jsval \<Rightarrow> string \<Rightarrow> world \<Rightarrow> world \<times> response option" where
  "mark_failed e notebookId msg w =
     (let w1 = update_notebook notebookId (status_patch ''failed'') (write_failed e) w in
      if write_failed e = WriteThrows then (w1, None)
      else (w1, Some (error_response 500 msg)))"

text \<open>The placeholder glyph of line 215 (U+1F4DD), in UTF-8.\<close>

definition memo_glyph :: string where
  "memo_glyph = [CHR 0xF0, CHR 0x9F, CHR 0x93, CHR 0x9D]"

text \<open>The object written by the update of lines 210--220.\<close>

definition content_patch ::
  "jsval \<Rightarrow> jsval \<Rightarrow> jsval \<Rightarrow> jsval \<Rightarrow> jsval \<Rightarrow> (string \<times> jsval) list" where
  "content_patch title description notebookIcon backgroundColor exampleQuestions =
     [(''title'', title),
      (''description'', js_or description JNull),
      (''icon'', js_or notebookIcon (JStr memo_glyph)),
      (''color'', js_or backgroundColor (JStr ''gray'')),
      (''example_questions'', js_or exampleQuestions (JArr [])),
      (''generation_status'', JStr ''completed'')]"

text \<open>Lines 195--243: the title check, the content write and the success response.\<close>

definition persist ::
  "env \<Rightarrow> jsval \<Rightarrow> jsval \<Rightarrow> jsval \<Rightarrow> jsval \<Rightarrow> jsval \<Rightarrow> jsval \<Rightarrow> world
     \<Rightarrow> world \<times> response option" where
  "persist e notebookId title description notebookIcon backgroundColor exampleQuestions w =
     (if \<not> truthy title then
        mark_failed e notebookId ''No title in response from web service'' w
      else
        let w1 = update_notebook notebookId
                   (content_patch title description notebookIcon backgroundColor
                      exampleQuestions)
                   (write_completed e) w in
        case write_completed e of
          WriteThrows \<Rightarrow> (w1, None)
        | Rejected \<Rightarrow> (w1, Some (error_response 500 ''Failed to update notebook''))
        | Applied \<Rightarrow>
            (w1, Some (json_response 200
               [(''success'', JBool True),
                (''title'', title),
                (''description'', description),
                (''icon'', notebookIcon),
                (''color'', backgroundColor),
                (''exampleQuestions'', exampleQuestions),
                (''message'', JStr ''Notebook content generated successfully'')])))"

text \<open>Lines 165--193: the two accepted shapes of the generated data.\<close>

definition reconcile :: "env \<Rightarrow> jsval \<Rightarrow> jsval \<Rightarrow> world \<Rightarrow> world \<times> response option" where
  "reconcile e notebookId generatedData w =
     (if truthy generatedData \<and> truthy (get_prop generatedData ''output'') then
        let output = get_prop generatedData ''output'' in
        persist e notebookId
          (get_prop output ''title'')
          (get_prop output ''summary'')
          (get_prop output ''notebook_icon'')
          (get_prop output ''background_color'')
          (js_or (get_prop output ''example_questions'') (JArr []))
          w
      else if truthy generatedData \<and> truthy (get_prop generatedData ''title'') then
        persist e notebookId
          (get_prop generatedData ''title'')
          (get_prop generatedData ''summary'')
          (get_prop generatedData ''notebook_icon'')
          (get_prop generatedData ''background_color'')
          (js_or (get_prop generatedData ''example_questions'') (JArr []))
          w
      else
        mark_failed e notebookId ''Invalid response format from web service'' w)"

text \<open>Lines 132--162: the call of the generation service.\<close>

definition call_service ::
  "env \<Rightarrow> jsval \<Rightarrow> string \<Rightarrow> string \<Rightarrow> (string \<times> jsval) list \<Rightarrow> world
     \<Rightarrow> world \<times> response option" where
  "call_service e notebookId webServiceUrl authHeader payload w =
     (let w1 = emit (Fetch webServiceUrl authHeader (stringify_obj payload)) w in
      case fetch_result e of
        None \<Rightarrow> (w1, None)
      | Some resp \<Rightarrow>
          if \<not> resp_ok resp then
            (case resp_text resp of
               None \<Rightarrow> (w1, None)
             | Some errorText \<Rightarrow>
                 mark_failed e notebookId ''Failed to generate content from web service'' w1)
          else
            (case resp_json resp of
               None \<Rightarrow> (w1, None)
             | Some generatedData \<Rightarrow> reconcile e notebookId generatedData w1))"

text \<open>Lines 56--130: the payload, by source type.\<close>

definition resolve ::
  "env \<Rightarrow> jsval \<Rightarrow> jsval \<Rightarrow> jsval \<Rightarrow> string \<Rightarrow> string \<Rightarrow> world
     \<Rightarrow> world \<times> response option" where
  "resolve e notebookId filePath sourceType webServiceUrl authHeader w =
     (if sourceType = JStr ''text'' then
        (case select_single e [''content'', ''title''] notebookId ''text'' w of
           (w1, None) \<Rightarrow> (w1, None)
         | (w1, Some (src, sourceError)) \<Rightarrow>
             if sourceError \<or> \<not> truthy (opt_prop src ''content'') then
               mark_failed e notebookId ''Failed to get text content for processing'' w1
             else
               call_service e notebookId webServiceUrl authHeader
                 [(''sourceType'', sourceType),
                  (''content'', get_prop src ''content''),
                  (''title'', get_prop src ''title'')] w1)
      else if sourceType = JStr ''website'' then
        (case select_single e [''url'', ''title''] notebookId ''website'' w of
           (w1, None) \<Rightarrow> (w1, None)
         | (w1, Some (src, sourceError)) \<Rightarrow>
             if sourceError \<or> \<not> truthy (opt_prop src ''url'') then
               mark_failed e notebookId ''Failed to get website URL for processing'' w1
             else
               call_service e notebookId webServiceUrl authHeader
                 [(''sourceType'', sourceType),
                  (''filePath'', get_prop src ''url''),
                  (''title'', get_prop src ''title'')] w1)
      else if truthy filePath then
        call_service e notebookId webServiceUrl authHeader
          [(''sourceType'', sourceType), (''filePath'', filePath)] w
      else
        mark_failed e notebookId ''No valid source data found for generation'' w)"

text \<open>
  Lines 14--54. Destructuring \<^verbatim>\<open>null\<close> throws; destructuring any other value reads
  the three properties.
\<close>

definition try_block :: "env \<Rightarrow> request \<Rightarrow> world \<Rightarrow> world \<times> response option" where
  "try_block e req w =
     (let w0 = emit ReadBody w in
      case json_first req of
        None \<Rightarrow> (w0, None)
      | Some b \<Rightarrow>
          if nullish b then (w0, None)
          else
            let notebookId = get_prop b ''notebookId'';
                filePath = get_prop b ''filePath'';
                sourceType = get_prop b ''sourceType'' in
            if \<not> truthy notebookId \<or> \<not> truthy sourceType then
              (w0, Some (error_response 400 ''notebookId and sourceType are required''))
            else if \<not> env_truthy (generation_url e) \<or> \<not> env_truthy (generation_auth e) then
              (w0, Some (error_response 500 ''Web service configuration missing''))
            else if \<not> client_first e then (w0, None)
            else
              let w1 = update_notebook notebookId (status_patch ''generating'')
                         (write_generating e) w0 in
              if write_generating e = WriteThrows then (w1, None)
              else resolve e notebookId filePath sourceType
                     (env_string (generation_url e)) (env_string (generation_auth e)) w1)"

text \<open>Lines 245--265: the best-effort write of the catch block; its own errors are swallowed.\<close>

definition catch_cleanup :: "env \<Rightarrow> request \<Rightarrow> world \<Rightarrow> world" where
  "catch_cleanup e req w =
     (let w0 = emit ReadBody w in
      case json_second req of
        None \<Rightarrow> w0
      | Some b \<Rightarrow>
          if nullish b then w0
          else
            let notebookId = get_prop b ''notebookId'' in
            if truthy notebookId then
              (if \<not> client_second e then w0
               else update_notebook notebookId (status_patch ''failed'') (write_catch e) w0)
            else w0)"

text \<open>Lines 9--271.\<close>

definition handler :: "env \<Rightarrow> request \<Rightarrow> world \<Rightarrow> world \<times> response" where
  "handler e req w =
     (if req_method req = ''OPTIONS'' then
        (w, \<lparr>status = 200, headers = corsHeaders, body = Text ''ok''\<rparr>)
      else
        case try_block e req w of
          (w1, Some r) \<Rightarrow> (w1, r)
        | (w1, None) \<Rightarrow> (catch_cleanup e req w1, error_response 500 ''Internal server error''))"

section \<open>A scenario\<close>

text \<open>
  The end-to-end scenario of the specification: the request
  \<^verbatim>\<open>{notebookId:"n1", sourceType:"text"}\<close>, a store whose latest text source of
  notebook n1 has content "hello" and title "Doc", and a service that answers
  \<^verbatim>\<open>{output:{title:"Doc", summary:"sum", example_questions:["q1"]}}\<close>. The body of
  the request cannot be read a second time.
\<close>

definition ex_service :: service_response where
  "ex_service =
     \<lparr>resp_ok = True,
      resp_text = Some ''{}'',
      resp_json = Some (JObj [(''output'',
         JObj [(''title'', JStr ''Doc''), (''summary'', JStr ''sum''),
               (''example_questions'', JArr [JStr ''q1''])])])\<rparr>"

definition ex_env :: env where
  "ex_env =
     \<lparr>generation_url = Some ''https://gen.example/run'',
      generation_auth = Some ''Bearer t'',
      client_first = True,
      client_second = True,
      write_generating = Applied,
      write_failed = Applied,
      write_completed = Applied,
      write_catch = Applied,
      query_result = QueryOk,
      fetch_result = Some ex_service\<rparr>"

text \<open>The same, with a service that answers \<^verbatim>\<open>{title:"Doc"}\<close> and nothing else.\<close>

definition ex_bare_env :: env where
  "ex_bare_env =
     ex_env\<lparr>fetch_result :=
       Some (ex_service\<lparr>resp_json := Some (JObj [(''title'', JStr ''Doc'')])\<rparr>)\<rparr>"

text \<open>
  With a service that answers data without a title: flattened,
  \<^verbatim>\<open>{summary:"sum"}\<close>, and wrapped, \<^verbatim>\<open>{output:{summary:"sum"}}\<close>.
\<close>

definition ex_untitled_env :: env where
  "ex_untitled_env =
     ex_env\<lparr>fetch_result :=
       Some (ex_service\<lparr>resp_json := Some (JObj [(''summary'', JStr ''sum'')])\<rparr>)\<rparr>"

definition ex_untitled_wrapped_env :: env where
  "ex_untitled_wrapped_env =
     ex_env\<lparr>fetch_result :=
       Some (ex_service\<lparr>resp_json :=
         Some (JObj [(''output'', JObj [(''summary'', JStr ''sum'')])])\<rparr>)\<rparr>"

text \<open>With a store that rejects the content write, and with a \<^verbatim>\<open>fetch\<close> that rejects.\<close>

definition ex_rejecting_env :: env where
  "ex_rejecting_env = ex_env\<lparr>write_completed := Rejected\<rparr>"

definition ex_offline_env :: env where
  "ex_offline_env = ex_env\<lparr>fetch_result := None\<rparr>"

definition ex_request :: request where
  "ex_request =
     \<lparr>req_method = ''POST'',
      json_first = Some (JObj [(''notebookId'', JStr ''n1''), (''sourceType'', JStr ''text'')]),
      json_second = None\<rparr>"

text \<open>A request whose body is the JSON value \<^verbatim>\<open>null\<close>.\<close>

definition ex_null_request :: request where
  "ex_null_request =
     \<lparr>req_method = ''POST'', json_first = Some JNull, json_second = None\<rparr>"

definition ex_notebook :: row where
  "ex_notebook =
     [''id'' \<mapsto> JStr ''n1'', ''title'' \<mapsto> JStr ''Untitled'',
      ''generation_status'' \<mapsto> JStr ''pending'']"

definition ex_sources :: "source list" where
  "ex_sources =
     [\<lparr>src_notebook_id = JStr ''n1'', src_type = ''text'', src_content = JStr ''old'',
       src_title = JStr ''Old'', src_url = JNull, created_at = 1\<rparr>,
      \<lparr>src_notebook_id = JStr ''n1'', src_type = ''text'', src_content = JStr ''hello'',
       src_title = JStr ''Doc'', src_url = JNull, created_at = 2\<rparr>,
      \<lparr>src_notebook_id = JStr ''n1'', src_type = ''website'', src_content = JNull,
       src_title = JStr ''Site'', src_url = JStr ''https://a.example'', created_at = 3\<rparr>,
      \<lparr>src_notebook_id = JStr ''n2'', src_type = ''text'', src_content = JStr ''other'',
       src_title = JStr ''Other'', src_url = JNull, created_at = 4\<rparr>]"

definition ex_world :: world where
  "ex_world = \<lparr>notebooks = [ex_notebook], sources = ex_sources, effects = []\<rparr>"

section \<open>Reading a run\<close>

text \<open>
  The store writes of a trace, in order: the id each one addresses and the
  \<^verbatim>\<open>generation_status\<close> it carries.
\<close>

fun written_status :: "event \<Rightarrow> (jsval \<times> jsval option) list" where
  "written_status (NotebookUpdate nid p) = [(nid, map_of p ''generation_status'')]"
| "written_status ev = []"

definition status_writes :: "event list \<Rightarrow> (jsval \<times> jsval option) list" where
  "status_writes es = concat (map written_status es)"

text \<open>The calls of the generation service in a trace.\<close>

fun service_call :: "event \<Rightarrow> event list" where
  "service_call (Fetch u a p) = [Fetch u a p]"
| "service_call ev = []"

definition service_calls :: "event list \<Rightarrow> event list" where
  "service_calls es = concat (map service_call es)"

text \<open>
  The object the fields are read from: \<^verbatim>\<open>generatedData.output\<close> when it is truthy
  (line 167), else \<^verbatim>\<open>generatedData\<close> itself (line 174).
\<close>

definition unwrapped :: "jsval \<Rightarrow> jsval" where
  "unwrapped g = (if truthy g \<and> truthy (get_prop g ''output'') then get_prop g ''output'' else g)"

text \<open>
  The world once the body is read and \<^verbatim>\<open>generation_status: 'generating'\<close> is
  written (lines 15 and 49--52).
\<close>

definition started :: "env \<Rightarrow> jsval \<Rightarrow> world \<Rightarrow> world" where
  "started e nid w =
     update_notebook nid (status_patch ''generating'') (write_generating e) (emit ReadBody w)"

text \<open>The properties of a JSON response body.\<close>

definition body_fields :: "response \<Rightarrow> (string \<times> jsval) list" where
  "body_fields r = (case body r of Json kvs \<Rightarrow> kvs | Text t \<Rightarrow> [])"

text \<open>A column of the notebooks with a given id.\<close>

definition column_of :: "string \<Rightarrow> jsval \<Rightarrow> world \<Rightarrow> jsval option list" where
  "column_of c nid w = map (\<lambda>r. r c) (filter (\<lambda>r. r ''id'' = Some nid) (notebooks w))"

section \<open>The paths of a run\<close>

subsection \<open>Worlds\<close>

lemma emit_simps [simp]:
  "effects (emit ev w) = effects w @ [ev]"
  "notebooks (emit ev w) = notebooks w"
  "sources (emit ev w) = sources w"
  by (simp_all add: emit_def)

lemma update_notebook_simps [simp]:
  "effects (update_notebook nid p out w) = effects w @ [NotebookUpdate nid p]"
  "notebooks (update_notebook nid p out w) =
     (if out = Applied then apply_patch nid p (notebooks w) else notebooks w)"
  "sources (update_notebook nid p out w) = sources w"
  by (simp_all add: update_notebook_def)

lemma status_writes_simps [simp]:
  "status_writes [] = []"
  "status_writes (ev # es) = written_status ev @ status_writes es"
  "status_writes (xs @ ys) = status_writes xs @ status_writes ys"
  by (simp_all add: status_writes_def)

lemma service_calls_simps [simp]:
  "service_calls [] = []"
  "service_calls (ev # es) = service_call ev @ service_calls es"
  "service_calls (xs @ ys) = service_calls xs @ service_calls ys"
  by (simp_all add: service_calls_def)

lemma status_of_patch [simp]:
  "map_of (status_patch s) ''generation_status'' = Some (JStr s)"
  "map_of (content_patch t d i c q) ''generation_status'' = Some (JStr ''completed'')"
  by (simp_all add: status_patch_def content_patch_def)

subsection \<open>Stages\<close>

lemma mark_failed_eq:
  "mark_failed e nid msg w =
     (update_notebook nid (status_patch ''failed'') (write_failed e) w,
      if write_failed e = WriteThrows then None else Some (error_response 500 msg))"
  by (simp add: mark_failed_def Let_def)

lemma reconcile_eq:
  "reconcile e nid g w =
     (if truthy g \<and> (truthy (get_prop g ''output'') \<or> truthy (get_prop g ''title'')) then
        persist e nid
          (get_prop (unwrapped g) ''title'')
          (get_prop (unwrapped g) ''summary'')
          (get_prop (unwrapped g) ''notebook_icon'')
          (get_prop (unwrapped g) ''background_color'')
          (js_or (get_prop (unwrapped g) ''example_questions'') (JArr []))
          w
      else mark_failed e nid ''Invalid response format from web service'' w)"
  by (auto simp add: reconcile_def unwrapped_def Let_def)

lemma call_service_cases:
  obtains
    (no_answer) "call_service e nid u a p w = (emit (Fetch u a (stringify_obj p)) w, None)"
      "fetch_result e = None
       \<or> (\<exists>resp. fetch_result e = Some resp
            \<and> (if resp_ok resp then resp_json resp = None else resp_text resp = None))"
  | (not_ok) resp where "fetch_result e = Some resp" "\<not> resp_ok resp"
      "call_service e nid u a p w =
         mark_failed e nid ''Failed to generate content from web service''
           (emit (Fetch u a (stringify_obj p)) w)"
  | (answered) resp g where "fetch_result e = Some resp" "resp_ok resp" "resp_json resp = Some g"
      "call_service e nid u a p w = reconcile e nid g (emit (Fetch u a (stringify_obj p)) w)"
proof (cases "fetch_result e")
  case None
  then show ?thesis using no_answer by (simp add: call_service_def)
next
  case (Some resp)
  show ?thesis
  proof (cases "resp_ok resp")
    case False
    then show ?thesis using Some no_answer not_ok [of resp]
      by (cases "resp_text resp") (simp_all add: call_service_def)
  next
    case True
    then show ?thesis using Some no_answer answered [of resp]
      by (cases "resp_json resp") (simp_all add: call_service_def)
  qed
qed

lemma select_single_cases:
  obtains
    (rejects) "select_single e cols nid ty w = (emit (SourceSelect cols nid ty) w, None)"
  | (no_row) "select_single e cols nid ty w = (emit (SourceSelect cols nid ty) w, Some (JNull, True))"
  | (one_row) r where "query_result e = QueryOk" "select_latest (sources w) nid ty = [r]"
      "select_single e cols nid ty w =
         (emit (SourceSelect cols nid ty) w, Some (project cols r, False))"
proof (cases "query_result e")
  case QueryOk
  show ?thesis
  proof (cases "select_latest (sources w) nid ty")
    case Nil
    then show ?thesis using QueryOk no_row by (simp add: select_single_def)
  next
    case (Cons r rs)
    then show ?thesis using QueryOk no_row one_row [of r]
      by (cases rs) (simp_all add: select_single_def)
  qed
next
  case QueryError
  then show ?thesis using no_row by (simp add: select_single_def)
next
  case QueryThrows
  then show ?thesis using rejects by (simp add: select_single_def)
qed

lemma resolve_cases:
  obtains
    (query_rejects) cols ty where
      "resolve e nid fp st u a w = (emit (SourceSelect cols nid ty) w, None)"
  | (unresolved) w2 msg where
      "resolve e nid fp st u a w = mark_failed e nid msg w2"
      "notebooks w2 = notebooks w"
      "status_writes (effects w2) = status_writes (effects w)"
      "service_calls (effects w2) = service_calls (effects w)"
  | (resolved) w2 payload where
      "resolve e nid fp st u a w = call_service e nid u a payload w2"
      "notebooks w2 = notebooks w"
      "status_writes (effects w2) = status_writes (effects w)"
      "service_calls (effects w2) = service_calls (effects w)"
proof -
  consider (src_text) "st = JStr ''text''"
    | (src_website) "st \<noteq> JStr ''text''" "st = JStr ''website''"
    | (src_file) "st \<noteq> JStr ''text''" "st \<noteq> JStr ''website''" "truthy fp"
    | (src_none) "st \<noteq> JStr ''text''" "st \<noteq> JStr ''website''" "\<not> truthy fp"
    by blast
  then show ?thesis
  proof cases
    case src_text
    show ?thesis
    proof (cases rule: select_single_cases [of e "[''content'', ''title'']" nid "''text''" w])
      case rejects
      then show ?thesis using src_text query_rejects by (simp add: resolve_def)
    next
      case no_row
      then show ?thesis
        using src_text unresolved [of "''Failed to get text content for processing''"
            "emit (SourceSelect [''content'', ''title''] nid ''text'') w"]
        by (simp add: resolve_def)
    next
      case (one_row r)
      then show ?thesis
        using src_text
          unresolved [of "''Failed to get text content for processing''"
            "emit (SourceSelect [''content'', ''title''] nid ''text'') w"]
          resolved [of _ "emit (SourceSelect [''content'', ''title''] nid ''text'') w"]
        by (cases "truthy (opt_prop (project [''content'', ''title''] r) ''content'')")
          (simp_all add: resolve_def)
    qed
  next
    case src_website
    show ?thesis
    proof (cases rule: select_single_cases [of e "[''url'', ''title'']" nid "''website''" w])
      case rejects
      then show ?thesis using src_website query_rejects by (simp add: resolve_def)
    next
      case no_row
      then show ?thesis
        using src_website unresolved [of "''Failed to get website URL for processing''"
            "emit (SourceSelect [''url'', ''title''] nid ''website'') w"]
        by (simp add: resolve_def)
    next
      case (one_row r)
      then show ?thesis
        using src_website
          unresolved [of "''Failed to get website URL for processing''"
            "emit (SourceSelect [''url'', ''title''] nid ''website'') w"]
          resolved [of _ "emit (SourceSelect [''url'', ''title''] nid ''website'') w"]
        by (cases "truthy (opt_prop (project [''url'', ''title''] r) ''url'')")
          (simp_all add: resolve_def)
    qed
  next
    case src_file
    then show ?thesis using resolved [of _ w] by (simp add: resolve_def)
  next
    case src_none
    then show ?thesis using unresolved [of _ w] by (simp add: resolve_def)
  qed
qed


lemma started_simps [simp]:
  "effects (started e nid w) = effects w @ [ReadBody, NotebookUpdate nid (status_patch ''generating'')]"
  "notebooks (started e nid w) =
     (if write_generating e = Applied
      then apply_patch nid (status_patch ''generating'') (notebooks w) else notebooks w)"
  "sources (started e nid w) = sources w"
  by (simp_all add: started_def)

lemma try_block_cases:
  obtains
    (unreadable) "try_block e req w = (emit ReadBody w, None)"
  | (bad_request) b where "json_first req = Some b" "\<not> nullish b"
      "\<not> truthy (get_prop b ''notebookId'') \<or> \<not> truthy (get_prop b ''sourceType'')"
      "try_block e req w =
         (emit ReadBody w, Some (error_response 400 ''notebookId and sourceType are required''))"
  | (no_config) b where "json_first req = Some b"
      "truthy (get_prop b ''notebookId'')" "truthy (get_prop b ''sourceType'')"
      "\<not> env_truthy (generation_url e) \<or> \<not> env_truthy (generation_auth e)"
      "try_block e req w =
         (emit ReadBody w, Some (error_response 500 ''Web service configuration missing''))"
  | (write_throws) b where "json_first req = Some b" "write_generating e = WriteThrows"
      "try_block e req w = (started e (get_prop b ''notebookId'') w, None)"
  | (begun) b where "json_first req = Some b" "write_generating e \<noteq> WriteThrows"
      "truthy (get_prop b ''notebookId'')" "truthy (get_prop b ''sourceType'')"
      "env_truthy (generation_url e)" "env_truthy (generation_auth e)" "client_first e"
      "try_block e req w =
         resolve e (get_prop b ''notebookId'') (get_prop b ''filePath'')
           (get_prop b ''sourceType'') (env_string (generation_url e))
           (env_string (generation_auth e)) (started e (get_prop b ''notebookId'') w)"
proof (cases "json_first req")
  case None
  then show ?thesis using unreadable by (simp add: try_block_def)
next
  case (Some b)
  show ?thesis
  proof (cases "nullish b")
    case True
    then show ?thesis using Some unreadable by (simp add: try_block_def)
  next
    case nn: False
    show ?thesis
    proof (cases "truthy (get_prop b ''notebookId'') \<and> truthy (get_prop b ''sourceType'')")
      case False
      then show ?thesis using Some nn bad_request [of b]
        by (auto simp add: try_block_def Let_def)
    next
      case fields: True
      show ?thesis
      proof (cases "env_truthy (generation_url e) \<and> env_truthy (generation_auth e)")
        case False
        then show ?thesis using Some nn fields no_config [of b]
          by (auto simp add: try_block_def Let_def)
      next
        case config: True
        show ?thesis
        proof (cases "client_first e")
          case False
          then show ?thesis using Some nn fields config unreadable
            by (simp add: try_block_def Let_def)
        next
          case True
          then show ?thesis using Some nn fields config write_throws [of b] begun [of b]
            by (cases "write_generating e = WriteThrows")
              (simp_all add: try_block_def Let_def started_def)
        qed
      qed
    qed
  qed
qed

lemma service_cases:
  obtains
    (no_answer) "call_service e nid u a p w = (emit (Fetch u a (stringify_obj p)) w, None)"
      "fetch_result e = None
       \<or> (\<exists>resp. fetch_result e = Some resp
            \<and> (if resp_ok resp then resp_json resp = None else resp_text resp = None))"
  | (not_ok) resp where "fetch_result e = Some resp" "\<not> resp_ok resp"
      "call_service e nid u a p w =
         mark_failed e nid ''Failed to generate content from web service''
           (emit (Fetch u a (stringify_obj p)) w)"
  | (invalid) resp g where "fetch_result e = Some resp" "resp_ok resp" "resp_json resp = Some g"
      "\<not> (truthy g \<and> truthy (get_prop g ''output''))"
      "\<not> truthy (get_prop (unwrapped g) ''title'')"
      "call_service e nid u a p w =
         mark_failed e nid ''Invalid response format from web service''
           (emit (Fetch u a (stringify_obj p)) w)"
  | (no_title) resp g where "fetch_result e = Some resp" "resp_ok resp" "resp_json resp = Some g"
      "truthy g \<and> truthy (get_prop g ''output'')"
      "\<not> truthy (get_prop (unwrapped g) ''title'')"
      "call_service e nid u a p w =
         mark_failed e nid ''No title in response from web service''
           (emit (Fetch u a (stringify_obj p)) w)"
  | (titled) resp g where "fetch_result e = Some resp" "resp_ok resp" "resp_json resp = Some g"
      "truthy (get_prop (unwrapped g) ''title'')"
      "call_service e nid u a p w =
         persist e nid
          (get_prop (unwrapped g) ''title'')
          (get_prop (unwrapped g) ''summary'')
          (get_prop (unwrapped g) ''notebook_icon'')
          (get_prop (unwrapped g) ''background_color'')
          (js_or (get_prop (unwrapped g) ''example_questions'') (JArr []))
          (emit (Fetch u a (stringify_obj p)) w)"
proof (cases rule: call_service_cases [of e nid u a p w])
  case no_answer
  then show ?thesis using that(1) by blast
next
  case (not_ok resp)
  then show ?thesis using that(2) by simp
next
  case (answered resp g)
  show ?thesis
  proof (cases "truthy (get_prop (unwrapped g) ''title'')")
    case True
    then have "truthy g \<and> (truthy (get_prop g ''output'') \<or> truthy (get_prop g ''title''))"
      by (cases g) (auto simp: unwrapped_def split: if_splits)
    then show ?thesis using answered True that(5) [of resp g]
      by (simp add: reconcile_eq)
  next
    case False
    show ?thesis
    proof (cases "truthy g \<and> truthy (get_prop g ''output'')")
      case True
      then show ?thesis using answered False that(4) [of resp g]
        by (simp add: reconcile_eq persist_def)
    next
      case unwr: False
      then have "unwrapped g = g" by (auto simp add: unwrapped_def)
      then show ?thesis using answered False unwr that(3) [of resp g]
        by (auto simp add: reconcile_eq)
    qed
  qed
qed


lemma run_cases:
  obtains
    (unreadable) "try_block e req w = (emit ReadBody w, None)"
  | (bad_request) b where "json_first req = Some b" "\<not> nullish b"
      "\<not> truthy (get_prop b ''notebookId'') \<or> \<not> truthy (get_prop b ''sourceType'')"
      "try_block e req w =
         (emit ReadBody w, Some (error_response 400 ''notebookId and sourceType are required''))"
  | (no_config) b where "json_first req = Some b"
      "truthy (get_prop b ''notebookId'')" "truthy (get_prop b ''sourceType'')"
      "\<not> env_truthy (generation_url e) \<or> \<not> env_truthy (generation_auth e)"
      "try_block e req w =
         (emit ReadBody w, Some (error_response 500 ''Web service configuration missing''))"
  | (stopped) b w1 where "json_first req = Some b"
      "try_block e req w = (w1, None)"
      "notebooks w1 = notebooks (started e (get_prop b ''notebookId'') w)"
      "status_writes (effects w1) =
         status_writes (effects w) @ [(get_prop b ''notebookId'', Some (JStr ''generating''))]"
      "service_calls (effects w1) = service_calls (effects w)
       \<or> fetch_result e = None
       \<or> (\<exists>resp. fetch_result e = Some resp
            \<and> (if resp_ok resp then resp_json resp = None else resp_text resp = None))"
  | (failing) b w2 msg where "json_first req = Some b"
      "try_block e req w = mark_failed e (get_prop b ''notebookId'') msg w2"
      "notebooks w2 = notebooks (started e (get_prop b ''notebookId'') w)"
      "status_writes (effects w2) =
         status_writes (effects w) @ [(get_prop b ''notebookId'', Some (JStr ''generating''))]"
      "service_calls (effects w2) = service_calls (effects w)
       \<or> (\<exists>resp. fetch_result e = Some resp \<and> \<not> resp_ok resp)
       \<or> (\<exists>resp g. fetch_result e = Some resp \<and> resp_ok resp \<and> resp_json resp = Some g
            \<and> \<not> truthy (get_prop (unwrapped g) ''title'')
            \<and> msg = (if truthy g \<and> truthy (get_prop g ''output'')
                      then ''No title in response from web service''
                      else ''Invalid response format from web service''))"
  | (persisting) b w3 resp g where "json_first req = Some b"
      "fetch_result e = Some resp" "resp_ok resp" "resp_json resp = Some g"
      "truthy (get_prop (unwrapped g) ''title'')"
      "try_block e req w =
         persist e (get_prop b ''notebookId'')
          (get_prop (unwrapped g) ''title'')
          (get_prop (unwrapped g) ''summary'')
          (get_prop (unwrapped g) ''notebook_icon'')
          (get_prop (unwrapped g) ''background_color'')
          (js_or (get_prop (unwrapped g) ''example_questions'') (JArr []))
          w3"
      "notebooks w3 = notebooks (started e (get_prop b ''notebookId'') w)"
      "status_writes (effects w3) =
         status_writes (effects w) @ [(get_prop b ''notebookId'', Some (JStr ''generating''))]"
proof (cases rule: try_block_cases [of e req w])
  case unreadable
  then show ?thesis using that(1) by simp
next
  case (bad_request b)
  then show ?thesis using that(2) by simp
next
  case (no_config b)
  then show ?thesis using that(3) by simp
next
  case (write_throws b)
  then show ?thesis using that(4) [of b] by simp
next
  case (begun b)
  let ?nid = "get_prop b ''notebookId''"
  let ?u = "env_string (generation_url e)" and ?a = "env_string (generation_auth e)"
  let ?w1 = "started e ?nid w"
  show ?thesis
  proof (cases rule: resolve_cases [of e ?nid "get_prop b ''filePath''"
        "get_prop b ''sourceType''" ?u ?a ?w1])
    case (query_rejects cols ty)
    then show ?thesis using begun that(4) [of b] by simp
  next
    case (unresolved w2 msg)
    then show ?thesis using begun that(5) [of b msg w2] by simp
  next
    case (resolved w2 payload)
    let ?w3 = "emit (Fetch ?u ?a (stringify_obj payload)) w2"
    show ?thesis
    proof (cases rule: service_cases [of e ?nid ?u ?a payload w2])
      case no_answer
      then show ?thesis using begun resolved that(4) [of b ?w3] by simp
    next
      case (not_ok resp)
      then show ?thesis using begun resolved
          that(5) [of b "''Failed to generate content from web service''" ?w3]
        by simp
    next
      case (invalid resp g)
      then show ?thesis using begun resolved
          that(5) [of b "''Invalid response format from web service''" ?w3]
        by simp
    next
      case (no_title resp g)
      then show ?thesis using begun resolved
          that(5) [of b "''No title in response from web service''" ?w3]
        by simp
    next
      case (titled resp g)
      then show ?thesis using begun resolved that(6) [of b resp g ?w3] by simp
    qed
  qed
qed

lemma error_response_simps [simp]:
  "status (error_response st msg) = st"
  "body (error_response st msg) = Json [(''error'', JStr msg)]"
  by (simp_all add: error_response_def json_response_def stringify_obj_def)

subsection \<open>Leaves\<close>

lemma persist_eq:
  "persist e nid t d i c q w =
     (if \<not> truthy t then mark_failed e nid ''No title in response from web service'' w
      else
        (update_notebook nid (content_patch t d i c q) (write_completed e) w,
         case write_completed e of
           WriteThrows \<Rightarrow> None
         | Rejected \<Rightarrow> Some (error_response 500 ''Failed to update notebook'')
         | Applied \<Rightarrow>
             Some (json_response 200
               [(''success'', JBool True), (''title'', t), (''description'', d),
                (''icon'', i), (''color'', c), (''exampleQuestions'', q),
                (''message'', JStr ''Notebook content generated successfully'')])))"
  by (simp add: persist_def Let_def split: write_outcome.splits)

lemma catch_cleanup_eq:
  "catch_cleanup e req w =
     (case json_second req of
        None \<Rightarrow> emit ReadBody w
      | Some b \<Rightarrow>
          if truthy (get_prop b ''notebookId'') \<and> client_second e
          then update_notebook (get_prop b ''notebookId'') (status_patch ''failed'')
                 (write_catch e) (emit ReadBody w)
          else emit ReadBody w)"
  by (cases "json_second req") (auto simp add: catch_cleanup_def Let_def nullish_def)

lemma catch_cleanup_calls [simp]:
  "service_calls (effects (catch_cleanup e req w)) = service_calls (effects w)"
  by (simp add: catch_cleanup_eq split: option.splits)

lemma handler_eq:
  assumes "req_method req \<noteq> ''OPTIONS''" and "try_block e req w = (w1, ro)"
  shows "handler e req w =
     (case ro of
        Some r \<Rightarrow> (w1, r)
      | None \<Rightarrow> (catch_cleanup e req w1, error_response 500 ''Internal server error''))"
  using assms by (simp add: handler_def split: option.splits)

lemma handler_calls:
  assumes "req_method req \<noteq> ''OPTIONS''"
  shows "service_calls (effects (fst (handler e req w))) =
     service_calls (effects (fst (try_block e req w)))"
proof (cases "try_block e req w")
  case (Pair w1 ro)
  then show ?thesis using handler_eq [OF assms Pair] by (cases ro) simp_all
qed

lemma call_service_calls:
  "service_calls (effects (fst (call_service e nid u a p w))) =
     service_calls (effects w) @ [Fetch u a (stringify_obj p)]"
  by (cases rule: service_cases [of e nid u a p w]) (simp_all add: mark_failed_eq persist_eq)

lemma handler_writes:
  assumes "req_method req \<noteq> ''OPTIONS''" and "try_block e req w = (w1, Some r)"
  shows "handler e req w = (w1, r)"
  using handler_eq [OF assms] by simp

lemmas run_simps = catch_cleanup_eq mark_failed_eq persist_eq

subsection \<open>The store\<close>

lemma column_of_applied:
  assumes "notebooks w' = apply_patch nid p rows" and "map_of p c = Some v"
  shows "\<forall>x \<in> set (column_of c nid w'). x = Some v"
  using assms by (auto simp add: column_of_def apply_patch_def map_add_def split: if_splits)

lemma apply_status_patch_other:
  assumes "c \<noteq> ''generation_status''"
  shows "map (\<lambda>r. r c) (apply_patch nid (status_patch s) rows) = map (\<lambda>r. r c) rows"
  using assms by (simp add: apply_patch_def status_patch_def)

lemma handler_options:
  assumes "req_method req = ''OPTIONS''"
  shows "handler e req w = (w, \<lparr>status = 200, headers = corsHeaders, body = Text ''ok''\<rparr>)"
  using assms by (simp add: handler_def)

lemma update_in_status_writes:
  assumes "NotebookUpdate nid p \<in> set es"
  shows "(nid, map_of p ''generation_status'') \<in> set (status_writes es)"
  using assms by (induction es) auto

lemma select_latest_nonempty:
  assumes "matching rows nid ty \<noteq> []"
  obtains r where "select_latest rows nid ty = [r]"
    and "r \<in> set (matching rows nid ty)"
    and "\<forall>r' \<in> set (matching rows nid ty). created_at r' \<le> created_at r"
proof -
  let ?f = "\<lambda>r. - created_at r"
  let ?xs = "sort_key ?f (matching rows nid ty)"
  have "length ?xs = length (matching rows nid ty)" by simp
  then have "?xs \<noteq> []" using assms by (metis length_0_conv)
  then obtain y ys where ys: "?xs = y # ys" by (cases ?xs) auto
  have "sorted (map ?f ?xs)" by (rule sorted_sort_key)
  then have le: "\<forall>z \<in> set ys. ?f y \<le> ?f z" using ys by simp
  have mem: "set ?xs = set (matching rows nid ty)" by simp
  have "y \<in> set (matching rows nid ty)" using ys mem by (metis list.set_intros(1))
  moreover have "\<forall>r' \<in> set (matching rows nid ty). created_at r' \<le> created_at y"
  proof
    fix r' assume "r' \<in> set (matching rows nid ty)"
    then have "r' \<in> set (y # ys)" using ys mem by simp
    then show "created_at r' \<le> created_at y" using le by auto
  qed
  moreover have "select_latest rows nid ty = [y]" using ys by (simp add: select_latest_def)
  ultimately show ?thesis using that by blast
qed

subsection \<open>Evaluation\<close>

lemmas eval_defs = handler_def try_block_def resolve_def select_single_def call_service_def
  reconcile_def persist_def mark_failed_def catch_cleanup_def update_notebook_def emit_def
  Let_def select_latest_def matching_def project_def column_def opt_prop_def nullish_def
  env_truthy_def env_string_def js_or_def content_patch_def apply_patch_def status_patch_def
  stringify_obj_def json_response_def error_response_def column_of_def started_def
  ex_env_def ex_request_def ex_world_def ex_sources_def ex_service_def ex_notebook_def

section \<open>Terminal status writes\<close>

text \<open>
  Claim C1, as the code has it. In a run that has written 'generating' and returns
  any response other than the catch-all "Internal server error", exactly one more
  status write is issued before the handler returns, for the same notebook:
  'failed' or 'completed'. When the store applies that write, every notebook with
  the id has that status when the handler returns; when the store rejects it, as
  on the persist-failure path, no other write follows.
\<close>

theorem one_terminal_write:
  assumes "effects w = []"
    and "(nid, Some (JStr ''generating'')) \<in> set (status_writes (effects (fst (handler e req w))))"
    and "snd (handler e req w) \<noteq> error_response 500 ''Internal server error''"
  shows "\<exists>s. (s = ''completed'' \<or> s = ''failed'')
    \<and> status_writes (effects (fst (handler e req w))) =
        [(nid, Some (JStr ''generating'')), (nid, Some (JStr s))]
    \<and> ((if s = ''failed'' then write_failed e else write_completed e) = Applied \<longrightarrow>
          (\<forall>v \<in> set (column_of ''generation_status'' nid (fst (handler e req w))).
             v = Some (JStr s)))"
proof -
  have nonopt: "req_method req \<noteq> ''OPTIONS''"
    using assms(1,2) handler_options [of req e w] by auto
  show ?thesis
  proof (cases rule: run_cases [of e req w])
    case unreadable
    then show ?thesis using assms(3) handler_eq [OF nonopt unreadable] by simp
  next
    case (bad_request b)
    then show ?thesis using assms(1,2) handler_eq [OF nonopt bad_request(4)] by simp
  next
    case (no_config b)
    then show ?thesis using assms(1,2) handler_eq [OF nonopt no_config(5)] by simp
  next
    case (stopped b w1)
    then show ?thesis using assms(3) handler_eq [OF nonopt stopped(2)] by simp
  next
    case (failing b w2 msg)
    let ?nid = "get_prop b ''notebookId''"
    have nt: "write_failed e \<noteq> WriteThrows"
      using failing(2) assms(3) handler_eq [OF nonopt, of e w] by (auto simp add: mark_failed_eq)
    then have h: "handler e req w =
        (update_notebook ?nid (status_patch ''failed'') (write_failed e) w2,
         error_response 500 msg)"
      using failing(2) by (intro handler_writes [OF nonopt]) (simp add: mark_failed_eq)
    have s: "status_writes (effects (fst (handler e req w))) =
        [(?nid, Some (JStr ''generating'')), (?nid, Some (JStr ''failed''))]"
      unfolding h using failing(4) assms(1) by simp
    then have nid: "nid = ?nid" using assms(2) by auto
    have "\<forall>v \<in> set (column_of ''generation_status'' nid (fst (handler e req w))).
        v = Some (JStr ''failed'')" if "write_failed e = Applied"
    proof -
      have "notebooks (fst (handler e req w)) =
          apply_patch nid (status_patch ''failed'') (notebooks w2)"
        unfolding h nid using that by simp
      then show ?thesis by (rule column_of_applied) simp
    qed
    then show ?thesis using s nid by (intro exI [of _ "''failed''"]) simp
  next
    case (persisting b w3 resp g)
    let ?nid = "get_prop b ''notebookId''"
    let ?p = "content_patch (get_prop (unwrapped g) ''title'') (get_prop (unwrapped g) ''summary'')
      (get_prop (unwrapped g) ''notebook_icon'') (get_prop (unwrapped g) ''background_color'')
      (js_or (get_prop (unwrapped g) ''example_questions'') (JArr []))"
    have nt: "write_completed e \<noteq> WriteThrows"
      using persisting(5,6) assms(3) handler_eq [OF nonopt, of e w]
      by (auto simp add: persist_eq)
    then obtain r where h: "handler e req w =
        (update_notebook ?nid ?p (write_completed e) w3, r)"
      using persisting(5,6) handler_eq [OF nonopt, of e w]
      by (cases "write_completed e") (simp_all add: persist_eq)
    have s: "status_writes (effects (fst (handler e req w))) =
        [(?nid, Some (JStr ''generating'')), (?nid, Some (JStr ''completed''))]"
      unfolding h using persisting(8) assms(1) by simp
    then have nid: "nid = ?nid" using assms(2) by auto
    have "\<forall>v \<in> set (column_of ''generation_status'' nid (fst (handler e req w))).
        v = Some (JStr ''completed'')" if "write_completed e = Applied"
    proof -
      have "notebooks (fst (handler e req w)) = apply_patch nid ?p (notebooks w3)"
        unfolding h nid using that by simp
      then show ?thesis by (rule column_of_applied) simp
    qed
    then show ?thesis using s nid by (intro exI [of _ "''completed''"]) simp
  qed
qed

theorem one_terminal_write_witness:
  "(JStr ''n1'', Some (JStr ''generating'')) \<in>
      set (status_writes (effects (fst (handler ex_env ex_request ex_world))))
   \<and> snd (handler ex_env ex_request ex_world) \<noteq> error_response 500 ''Internal server error''
   \<and> status_writes (effects (fst (handler ex_env ex_request ex_world))) =
       [(JStr ''n1'', Some (JStr ''generating'')), (JStr ''n1'', Some (JStr ''completed''))]
   \<and> column_of ''generation_status'' (JStr ''n1'') (fst (handler ex_env ex_request ex_world)) =
       [Some (JStr ''completed'')]"
proof -
  have w: "effects ex_world = []" by (simp add: ex_world_def)
  have sw: "status_writes (effects (fst (handler ex_env ex_request ex_world))) =
       [(JStr ''n1'', Some (JStr ''generating'')), (JStr ''n1'', Some (JStr ''completed''))]"
    by (simp add: eval_defs)
  have g: "(JStr ''n1'', Some (JStr ''generating'')) \<in>
      set (status_writes (effects (fst (handler ex_env ex_request ex_world))))"
    unfolding sw by simp
  have "status (snd (handler ex_env ex_request ex_world)) = 200"
    by (simp add: eval_defs)
  then have r: "snd (handler ex_env ex_request ex_world) \<noteq>
      error_response 500 ''Internal server error''"
    by auto
  have l: "length (column_of ''generation_status'' (JStr ''n1'')
      (fst (handler ex_env ex_request ex_world))) = 1"
    by (simp add: eval_defs)
  have a: "write_completed ex_env = Applied" by (simp add: ex_env_def)
  obtain s where s: "status_writes (effects (fst (handler ex_env ex_request ex_world))) =
        [(JStr ''n1'', Some (JStr ''generating'')), (JStr ''n1'', Some (JStr s))]"
    and v: "(if s = ''failed'' then write_failed ex_env else write_completed ex_env) = Applied \<longrightarrow>
      (\<forall>v \<in> set (column_of ''generation_status'' (JStr ''n1'')
          (fst (handler ex_env ex_request ex_world))). v = Some (JStr s))"
    using one_terminal_write [OF w g r] by blast
  have "s = ''completed''" using s sw by simp
  then have "\<forall>v \<in> set (column_of ''generation_status'' (JStr ''n1'')
          (fst (handler ex_env ex_request ex_world))). v = Some (JStr ''completed'')"
    using v a by simp
  then have "column_of ''generation_status'' (JStr ''n1'')
      (fst (handler ex_env ex_request ex_world)) = [Some (JStr ''completed'')]"
    using l
    by (cases "column_of ''generation_status'' (JStr ''n1'')
      (fst (handler ex_env ex_request ex_world))") auto
  then show ?thesis using g r sw by simp
qed

text \<open>
  Claim C1 as stated fails on the two paths it names. When the store rejects the
  'completed' write, the handler returns status 500 after the 'generating' write
  and that rejected write, and the notebook still has \<^verbatim>\<open>generation_status\<close>
  'generating'. When \<^verbatim>\<open>fetch\<close> rejects and the body cannot be read a second time,
  the handler returns after the 'generating' write alone.
\<close>

theorem terminal_write_counterexample:
  "status (snd (handler ex_rejecting_env ex_request ex_world)) = 500
   \<and> status_writes (effects (fst (handler ex_rejecting_env ex_request ex_world))) =
       [(JStr ''n1'', Some (JStr ''generating'')), (JStr ''n1'', Some (JStr ''completed''))]
   \<and> column_of ''generation_status'' (JStr ''n1'')
        (fst (handler ex_rejecting_env ex_request ex_world)) = [Some (JStr ''generating'')]
   \<and> status (snd (handler ex_offline_env ex_request ex_world)) = 500
   \<and> status_writes (effects (fst (handler ex_offline_env ex_request ex_world))) =
       [(JStr ''n1'', Some (JStr ''generating''))]
   \<and> column_of ''generation_status'' (JStr ''n1'')
        (fst (handler ex_offline_env ex_request ex_world)) = [Some (JStr ''generating'')]"
  by (simp add: eval_defs ex_rejecting_env_def ex_offline_env_def)

section \<open>Request validation and configuration\<close>

text \<open>
  Claim C2, as the code has it. A request (other than a preflight) whose body
  parses to a JSON value other than null, in which \<^verbatim>\<open>notebookId\<close> or \<^verbatim>\<open>sourceType\<close> is missing or falsy, is
  answered with status 400 and the body \<^verbatim>\<open>{ error: "notebookId and sourceType are required" }\<close>;
  the run reads the body and does nothing else: no store write (in particular no
  'generating' write), no store read and no service call.
\<close>

theorem missing_fields_rejected:
  assumes "req_method req \<noteq> ''OPTIONS''"
    and "json_first req = Some b" and "\<not> nullish b"
    and "\<not> truthy (get_prop b ''notebookId'') \<or> \<not> truthy (get_prop b ''sourceType'')"
  shows "status (snd (handler e req w)) = 400
    \<and> body (snd (handler e req w)) =
        Json [(''error'', JStr ''notebookId and sourceType are required'')]
    \<and> notebooks (fst (handler e req w)) = notebooks w
    \<and> status_writes (effects (fst (handler e req w))) = status_writes (effects w)
    \<and> effects (fst (handler e req w)) = effects w @ [ReadBody]"
proof -
  have "try_block e req w =
      (emit ReadBody w, Some (error_response 400 ''notebookId and sourceType are required''))"
    using assms(2-4) by (auto simp add: try_block_def Let_def)
  then show ?thesis using assms(1) by (simp add: handler_def)
qed

theorem missing_fields_rejected_witness:
  "status (snd (handler ex_env
      (ex_request\<lparr>json_first := Some (JObj [(''sourceType'', JStr ''text'')])\<rparr>) ex_world)) = 400
   \<and> body (snd (handler ex_env
      (ex_request\<lparr>json_first := Some (JObj [(''sourceType'', JStr ''text'')])\<rparr>) ex_world)) =
        Json [(''error'', JStr ''notebookId and sourceType are required'')]
   \<and> effects (fst (handler ex_env
      (ex_request\<lparr>json_first := Some (JObj [(''sourceType'', JStr ''text'')])\<rparr>) ex_world)) =
        [ReadBody]"
  using missing_fields_rejected
    [of "ex_request\<lparr>json_first := Some (JObj [(''sourceType'', JStr ''text'')])\<rparr>"
        "JObj [(''sourceType'', JStr ''text'')]" ex_env ex_world]
  by (simp add: ex_request_def ex_world_def nullish_def)

text \<open>
  Claim C2 as stated fails for the body \<^verbatim>\<open>null\<close>: it is a JSON body that has
  neither \<^verbatim>\<open>notebookId\<close> nor \<^verbatim>\<open>sourceType\<close>, the destructuring of line 15 throws on
  it, and the handler answers with status 500 and the catch-all body, not with
  status 400. The run still writes nothing to the store.
\<close>

theorem null_body_counterexample:
  "status (snd (handler ex_env ex_null_request ex_world)) = 500
   \<and> status (snd (handler ex_env ex_null_request ex_world)) \<noteq> 400
   \<and> body (snd (handler ex_env ex_null_request ex_world)) =
       Json [(''error'', JStr ''Internal server error'')]
   \<and> status_writes (effects (fst (handler ex_env ex_null_request ex_world))) = []"
  by (simp add: eval_defs ex_null_request_def)

text \<open>
  The same for every environment and store: the JSON value null has no properties
  to destructure, the exception is caught at the top level and the answer is the
  catch-all one.
\<close>

lemma null_body_internal_error:
  assumes "req_method req \<noteq> ''OPTIONS''" and "json_first req = Some JNull"
  shows "snd (handler e req w) = error_response 500 ''Internal server error''"
proof -
  have "try_block e req w = (emit ReadBody w, None)"
    using assms(2) by (simp add: try_block_def nullish_def)
  then show ?thesis using handler_eq [OF assms(1)] by simp
qed

text \<open>
  Claim C3. A request with truthy \<^verbatim>\<open>notebookId\<close> and \<^verbatim>\<open>sourceType\<close>, served while
  the endpoint URL or the auth token is unset (or empty), is answered with status
  500 and the body \<^verbatim>\<open>{ error: "Web service configuration missing" }\<close>; the run
  reads the body and does nothing else: no 'generating' write and no call of the
  generation service.
\<close>

theorem missing_config_rejected:
  assumes "req_method req \<noteq> ''OPTIONS''"
    and "json_first req = Some b"
    and "truthy (get_prop b ''notebookId'')" and "truthy (get_prop b ''sourceType'')"
    and "\<not> env_truthy (generation_url e) \<or> \<not> env_truthy (generation_auth e)"
  shows "status (snd (handler e req w)) = 500
    \<and> body (snd (handler e req w)) = Json [(''error'', JStr ''Web service configuration missing'')]
    \<and> notebooks (fst (handler e req w)) = notebooks w
    \<and> status_writes (effects (fst (handler e req w))) = status_writes (effects w)
    \<and> service_calls (effects (fst (handler e req w))) = service_calls (effects w)
    \<and> effects (fst (handler e req w)) = effects w @ [ReadBody]"
proof -
  have "\<not> nullish b" using assms(3) by (auto simp: nullish_def)
  then have "try_block e req w =
      (emit ReadBody w, Some (error_response 500 ''Web service configuration missing''))"
    using assms(2-5) by (auto simp add: try_block_def Let_def)
  then show ?thesis using assms(1) by (simp add: handler_def)
qed

theorem missing_config_rejected_witness:
  "status (snd (handler (ex_env\<lparr>generation_auth := None\<rparr>) ex_request ex_world)) = 500
   \<and> body (snd (handler (ex_env\<lparr>generation_auth := None\<rparr>) ex_request ex_world)) =
        Json [(''error'', JStr ''Web service configuration missing'')]
   \<and> effects (fst (handler (ex_env\<lparr>generation_auth := None\<rparr>) ex_request ex_world)) = [ReadBody]"
  using missing_config_rejected
    [of ex_request "JObj [(''notebookId'', JStr ''n1''), (''sourceType'', JStr ''text'')]"
        "ex_env\<lparr>generation_auth := None\<rparr>" ex_world]
  by (simp add: ex_request_def ex_world_def ex_env_def env_truthy_def)

section \<open>The payload of a text source\<close>

text \<open>
  Claim C4. For a request with \<^verbatim>\<open>sourceType = "text"\<close> that gets as far as the
  source query (configuration present, client created, the 'generating' write and
  the query do not reject), when the store holds a text source of the notebook:
  the query yields a row that is a text source of the notebook and is created no
  earlier than any other, and when the content of that row is non-empty the run
  calls the generation service exactly once, with the configured URL and token
  and the payload \<^verbatim>\<open>{ sourceType: "text", content, title }\<close> of that row.
\<close>

theorem text_payload_from_latest_row:
  assumes "req_method req \<noteq> ''OPTIONS''"
    and "json_first req = Some b"
    and "truthy (get_prop b ''notebookId'')"
    and "get_prop b ''sourceType'' = JStr ''text''"
    and "env_truthy (generation_url e)" and "env_truthy (generation_auth e)"
    and "client_first e" and "write_generating e \<noteq> WriteThrows"
    and "query_result e = QueryOk"
    and "matching (sources w) (get_prop b ''notebookId'') ''text'' \<noteq> []"
  shows "\<exists>r. select_latest (sources w) (get_prop b ''notebookId'') ''text'' = [r]
     \<and> r \<in> set (matching (sources w) (get_prop b ''notebookId'') ''text'')
     \<and> (\<forall>r' \<in> set (matching (sources w) (get_prop b ''notebookId'') ''text'').
           created_at r' \<le> created_at r)
     \<and> (truthy (src_content r) \<longrightarrow>
          service_calls (effects (fst (handler e req w))) =
            service_calls (effects w) @
              [Fetch (env_string (generation_url e)) (env_string (generation_auth e))
                 (stringify_obj [(''sourceType'', JStr ''text''),
                                 (''content'', src_content r),
                                 (''title'', src_title r)])])"
proof -
  let ?nid = "get_prop b ''notebookId''"
  let ?u = "env_string (generation_url e)" and ?a = "env_string (generation_auth e)"
  obtain r where r: "select_latest (sources w) ?nid ''text'' = [r]"
    and mem: "r \<in> set (matching (sources w) ?nid ''text'')"
    and latest: "\<forall>r' \<in> set (matching (sources w) ?nid ''text''). created_at r' \<le> created_at r"
    using select_latest_nonempty [OF assms(10)] by blast
  have calls: "service_calls (effects (fst (handler e req w))) =
      service_calls (effects w) @
        [Fetch ?u ?a (stringify_obj [(''sourceType'', JStr ''text''),
           (''content'', src_content r), (''title'', src_title r)])]"
    if content: "truthy (src_content r)"
  proof -
    let ?w2 = "emit (SourceSelect [''content'', ''title''] ?nid ''text'') (started e ?nid w)"
    have nn: "\<not> nullish b" using assms(3) by (auto simp: nullish_def)
    have "try_block e req w = resolve e ?nid (get_prop b ''filePath'') (JStr ''text'') ?u ?a
        (started e ?nid w)"
      using assms(2-8) nn by (simp add: try_block_def Let_def started_def)
    moreover have "select_single e [''content'', ''title''] ?nid ''text'' (started e ?nid w) =
        (?w2, Some (project [''content'', ''title''] r, False))"
      using assms(9) r by (simp add: select_single_def)
    ultimately have "try_block e req w =
        call_service e ?nid ?u ?a
          [(''sourceType'', JStr ''text''), (''content'', src_content r),
           (''title'', src_title r)] ?w2"
      using content
      by (simp add: resolve_def project_def column_def opt_prop_def nullish_def)
    then show ?thesis
      using handler_calls [OF assms(1), of e w] by (simp add: call_service_calls)
  qed
  show ?thesis using r mem latest calls by blast
qed

theorem text_payload_from_latest_row_witness:
  "matching (sources ex_world) (JStr ''n1'') ''text'' \<noteq> []
   \<and> service_calls (effects (fst (handler ex_env ex_request ex_world))) =
       [Fetch ''https://gen.example/run'' ''Bearer t''
          [(''sourceType'', JStr ''text''), (''content'', JStr ''hello''),
           (''title'', JStr ''Doc'')]]"
proof -
  have m: "matching (sources ex_world) (JStr ''n1'') ''text'' \<noteq> []"
    by (simp add: matching_def ex_world_def ex_sources_def)
  have s: "select_latest (sources ex_world) (JStr ''n1'') ''text'' =
      [\<lparr>src_notebook_id = JStr ''n1'', src_type = ''text'', src_content = JStr ''hello'',
        src_title = JStr ''Doc'', src_url = JNull, created_at = 2\<rparr>]"
    by (simp add: select_latest_def matching_def ex_world_def ex_sources_def)
  show ?thesis
    using m s text_payload_from_latest_row
      [of ex_request "JObj [(''notebookId'', JStr ''n1''), (''sourceType'', JStr ''text'')]"
          ex_env ex_world]
    by (simp add: ex_request_def ex_env_def ex_world_def env_truthy_def env_string_def
        stringify_obj_def)
qed

section \<open>The two shapes of the generated data\<close>

lemma reconcile_wrapped:
  assumes "truthy T"
  shows "reconcile e nid (JObj [(''output'', JObj [(''title'', T), (''summary'', S)])]) w =
     persist e nid T S JUndefined JUndefined (JArr []) w"
  by (simp add: reconcile_def js_or_def Let_def)

lemma reconcile_flat:
  assumes "truthy T"
  shows "reconcile e nid (JObj [(''title'', T), (''summary'', S)]) w =
     persist e nid T S JUndefined JUndefined (JArr []) w"
  using assms by (simp add: reconcile_def js_or_def)

text \<open>
  Claim C5. For every non-empty title T and every summary S, a run in which the
  service answers \<^verbatim>\<open>{ output: { title: T, summary: S } }\<close> and the same run in which
  it answers \<^verbatim>\<open>{ title: T, summary: S }\<close> end alike: the same store, the same trace
  of effects and the same response. In both, the data is reconciled to the title
  T, the description S, no icon, no colour and no example questions, so that the
  object written to the notebook is the same.
\<close>

theorem shape_tolerant:
  assumes "truthy T"
  shows "handler (e\<lparr>fetch_result := Some (resp\<lparr>resp_json :=
             Some (JObj [(''output'', JObj [(''title'', T), (''summary'', S)])])\<rparr>)\<rparr>) req w =
         handler (e\<lparr>fetch_result := Some (resp\<lparr>resp_json :=
             Some (JObj [(''title'', T), (''summary'', S)])\<rparr>)\<rparr>) req w
    \<and> reconcile e nid (JObj [(''output'', JObj [(''title'', T), (''summary'', S)])]) w0 =
        persist e nid T S JUndefined JUndefined (JArr []) w0
    \<and> reconcile e nid (JObj [(''title'', T), (''summary'', S)]) w0 =
        persist e nid T S JUndefined JUndefined (JArr []) w0"
proof -
  let ?g1 = "JObj [(''output'', JObj [(''title'', T), (''summary'', S)])]"
  let ?g2 = "JObj [(''title'', T), (''summary'', S)]"
  let ?e1 = "e\<lparr>fetch_result := Some (resp\<lparr>resp_json := Some ?g1\<rparr>)\<rparr>"
  let ?e2 = "e\<lparr>fetch_result := Some (resp\<lparr>resp_json := Some ?g2\<rparr>)\<rparr>"
  have rec: "reconcile ?e1 nid' ?g1 w' = reconcile ?e2 nid' ?g2 w'" for nid' w'
    using reconcile_wrapped [OF assms] reconcile_flat [OF assms]
    by (simp add: persist_eq mark_failed_eq)
  have mf: "mark_failed ?e1 nid' msg w' = mark_failed ?e2 nid' msg w'" for nid' msg w'
    by (simp add: mark_failed_eq)
  have cs: "call_service ?e1 nid' u a p w' = call_service ?e2 nid' u a p w'" for nid' u a p w'
    by (simp add: call_service_def Let_def mf rec split: option.splits)
  have sel: "select_single ?e1 cols nid' ty w' = select_single ?e2 cols nid' ty w'"
    for cols nid' ty w'
    by (simp add: select_single_def Let_def)
  have res: "resolve ?e1 nid' fp st u a w' = resolve ?e2 nid' fp st u a w'" for nid' fp st u a w'
    by (simp add: resolve_def sel mf cs split: prod.splits option.splits)
  have tb: "try_block ?e1 req w = try_block ?e2 req w"
    by (simp add: try_block_def Let_def res split: option.splits)
  have cc: "catch_cleanup ?e1 req w' = catch_cleanup ?e2 req w'" for w'
    by (simp add: catch_cleanup_def Let_def split: option.splits)
  have "handler ?e1 req w = handler ?e2 req w"
    by (simp add: handler_def tb cc split: prod.splits option.splits)
  then show ?thesis
    using reconcile_wrapped [OF assms] reconcile_flat [OF assms] by simp
qed

theorem shape_tolerant_witness:
  "truthy (JStr ''Doc'')
   \<and> handler (ex_env\<lparr>fetch_result := Some (ex_service\<lparr>resp_json :=
          Some (JObj [(''output'', JObj [(''title'', JStr ''Doc''), (''summary'', JStr ''sum'')])])\<rparr>)\<rparr>)
        ex_request ex_world =
       handler (ex_env\<lparr>fetch_result := Some (ex_service\<lparr>resp_json :=
          Some (JObj [(''title'', JStr ''Doc''), (''summary'', JStr ''sum'')])\<rparr>)\<rparr>)
        ex_request ex_world
   \<and> column_of ''description'' (JStr ''n1'')
        (fst (handler (ex_env\<lparr>fetch_result := Some (ex_service\<lparr>resp_json :=
          Some (JObj [(''title'', JStr ''Doc''), (''summary'', JStr ''sum'')])\<rparr>)\<rparr>)
        ex_request ex_world)) = [Some (JStr ''sum'')]"
proof -
  have "column_of ''description'' (JStr ''n1'')
        (fst (handler (ex_env\<lparr>fetch_result := Some (ex_service\<lparr>resp_json :=
          Some (JObj [(''title'', JStr ''Doc''), (''summary'', JStr ''sum'')])\<rparr>)\<rparr>)
        ex_request ex_world)) = [Some (JStr ''sum'')]"
    by (simp add: handler_def try_block_def resolve_def select_single_def call_service_def
        reconcile_def persist_def update_notebook_def emit_def Let_def
        select_latest_def matching_def project_def column_def opt_prop_def nullish_def
        env_truthy_def js_or_def content_patch_def apply_patch_def status_patch_def
        column_of_def
        ex_env_def ex_request_def ex_world_def ex_sources_def ex_service_def ex_notebook_def)
  then show ?thesis
    using shape_tolerant [where T = "JStr ''Doc''" and S = "JStr ''sum''" and e = ex_env
        and resp = ex_service and req = ex_request and w = ex_world]
    by simp
qed

section \<open>A generated answer without a title\<close>

text \<open>
  Claim C6, as the code has it. When the service is called and answers, with an ok
  status, data whose title (read from \<^verbatim>\<open>output\<close> when that is truthy, else from the
  top level) is empty or absent, and the 'failed' write does not throw: the handler
  returns status 500, with the message "No title in response from web service" when
  the data is wrapped under a truthy \<^verbatim>\<open>output\<close>, and with the message "Invalid
  response format from web service" when it is not; the store writes of the run are
  the 'generating' write and one 'failed' write; when the store applies the 'failed'
  write every notebook with the id has \<^verbatim>\<open>generation_status\<close> 'failed'; and no column
  other than \<^verbatim>\<open>generation_status\<close> of any notebook is changed.
\<close>

theorem untitled_answer_marks_failed:
  assumes "effects w = []"
    and "json_first req = Some b"
    and "fetch_result e = Some resp" and "resp_ok resp" and "resp_json resp = Some g"
    and "service_calls (effects (fst (handler e req w))) \<noteq> []"
    and "\<not> truthy (get_prop (unwrapped g) ''title'')"
    and "write_failed e \<noteq> WriteThrows"
  shows "snd (handler e req w) =
      error_response 500
        (if truthy g \<and> truthy (get_prop g ''output'')
         then ''No title in response from web service''
         else ''Invalid response format from web service'')
    \<and> status_writes (effects (fst (handler e req w))) =
        [(get_prop b ''notebookId'', Some (JStr ''generating'')),
         (get_prop b ''notebookId'', Some (JStr ''failed''))]
    \<and> (write_failed e = Applied \<longrightarrow>
          (\<forall>v \<in> set (column_of ''generation_status'' (get_prop b ''notebookId'')
                 (fst (handler e req w))). v = Some (JStr ''failed'')))
    \<and> (\<forall>c. c \<noteq> ''generation_status'' \<longrightarrow>
          map (\<lambda>r. r c) (notebooks (fst (handler e req w))) = map (\<lambda>r. r c) (notebooks w))"
proof -
  let ?nid = "get_prop b ''notebookId''"
  let ?msg = "if truthy g \<and> truthy (get_prop g ''output'')
         then ''No title in response from web service''
         else ''Invalid response format from web service''"
  have nonopt: "req_method req \<noteq> ''OPTIONS''"
    using assms(1,6) handler_options [of req e w] by auto
  have calls: "service_calls (effects (fst (try_block e req w))) \<noteq> []"
    using assms(6) handler_calls [OF nonopt, of e w] by simp
  obtain w2 where tb: "try_block e req w = mark_failed e ?nid ?msg w2"
    and nb: "notebooks w2 = notebooks (started e ?nid w)"
    and sw: "status_writes (effects w2) = [(?nid, Some (JStr ''generating''))]"
  proof (cases rule: run_cases [of e req w])
    case unreadable
    then show ?thesis using calls assms(1) by simp
  next
    case (bad_request b')
    then show ?thesis using calls assms(1) by simp
  next
    case (no_config b')
    then show ?thesis using calls assms(1) by simp
  next
    case (stopped b' w1)
    then show ?thesis using calls assms(1,3,4,5) by auto
  next
    case (failing b' w2 msg)
    have "b' = b" using failing(1) assms(2) by simp
    moreover have "msg = ?msg"
      using failing(2,5) calls assms(1,3,4,5) by (auto simp add: mark_failed_eq)
    ultimately show ?thesis using failing(2,3,4) assms(1) that [of w2] by simp
  next
    case (persisting b' w3 resp' g')
    then show ?thesis using assms(3,5,7) by simp
  qed
  have h: "handler e req w =
      (update_notebook ?nid (status_patch ''failed'') (write_failed e) w2, error_response 500 ?msg)"
    using tb assms(8) by (intro handler_writes [OF nonopt]) (simp add: mark_failed_eq)
  have r: "snd (handler e req w) = error_response 500 ?msg"
    unfolding h by simp
  have s: "status_writes (effects (fst (handler e req w))) =
      [(?nid, Some (JStr ''generating'')), (?nid, Some (JStr ''failed''))]"
    unfolding h using sw by simp
  have f: "write_failed e = Applied \<longrightarrow>
      (\<forall>v \<in> set (column_of ''generation_status'' ?nid (fst (handler e req w))).
         v = Some (JStr ''failed''))"
  proof
    assume "write_failed e = Applied"
    then have "notebooks (fst (handler e req w)) =
        apply_patch ?nid (status_patch ''failed'') (notebooks w2)"
      unfolding h by simp
    then show "\<forall>v \<in> set (column_of ''generation_status'' ?nid (fst (handler e req w))).
        v = Some (JStr ''failed'')"
      by (rule column_of_applied) simp
  qed
  have k: "\<forall>c. c \<noteq> ''generation_status'' \<longrightarrow>
      map (\<lambda>r. r c) (notebooks (fst (handler e req w))) = map (\<lambda>r. r c) (notebooks w)"
    unfolding h using nb by (simp add: apply_status_patch_other)
  show ?thesis
    by (rule conjI [OF r conjI [OF s conjI [OF f k]]])
qed

theorem untitled_answer_marks_failed_witness:
  "service_calls (effects (fst (handler ex_untitled_wrapped_env ex_request ex_world))) \<noteq> []
   \<and> body (snd (handler ex_untitled_wrapped_env ex_request ex_world)) =
       Json [(''error'', JStr ''No title in response from web service'')]
   \<and> status_writes (effects (fst (handler ex_untitled_wrapped_env ex_request ex_world))) =
       [(JStr ''n1'', Some (JStr ''generating'')), (JStr ''n1'', Some (JStr ''failed''))]
   \<and> column_of ''generation_status'' (JStr ''n1'')
        (fst (handler ex_untitled_wrapped_env ex_request ex_world)) = [Some (JStr ''failed'')]
   \<and> column_of ''title'' (JStr ''n1'')
        (fst (handler ex_untitled_wrapped_env ex_request ex_world)) = [Some (JStr ''Untitled'')]"
proof -
  let ?g = "JObj [(''output'', JObj [(''summary'', JStr ''sum'')])]"
  have w: "effects ex_world = []" by (simp add: ex_world_def)
  have b: "json_first ex_request =
      Some (JObj [(''notebookId'', JStr ''n1''), (''sourceType'', JStr ''text'')])"
    by (simp add: ex_request_def)
  have f: "fetch_result ex_untitled_wrapped_env = Some (ex_service\<lparr>resp_json := Some ?g\<rparr>)"
    by (simp add: ex_untitled_wrapped_env_def)
  have ok: "resp_ok (ex_service\<lparr>resp_json := Some ?g\<rparr>)" by (simp add: ex_service_def)
  have j: "resp_json (ex_service\<lparr>resp_json := Some ?g\<rparr>) = Some ?g" by simp
  have c: "service_calls (effects (fst (handler ex_untitled_wrapped_env ex_request ex_world))) \<noteq> []"
    by (simp add: eval_defs ex_untitled_wrapped_env_def)
  have t: "\<not> truthy (get_prop (unwrapped ?g) ''title'')" by (simp add: unwrapped_def)
  have wf: "write_failed ex_untitled_wrapped_env \<noteq> WriteThrows"
    by (simp add: ex_untitled_wrapped_env_def ex_env_def)
  have gs: "column_of ''generation_status'' (JStr ''n1'')
        (fst (handler ex_untitled_wrapped_env ex_request ex_world)) = [Some (JStr ''failed'')]"
    by (simp add: eval_defs ex_untitled_wrapped_env_def)
  have ti: "column_of ''title'' (JStr ''n1'')
        (fst (handler ex_untitled_wrapped_env ex_request ex_world)) = [Some (JStr ''Untitled'')]"
    by (simp add: eval_defs ex_untitled_wrapped_env_def)
  note u = untitled_answer_marks_failed [OF w b f ok j c t wf]
  have "body (snd (handler ex_untitled_wrapped_env ex_request ex_world)) =
       Json [(''error'', JStr ''No title in response from web service'')]"
    using u [THEN conjunct1] by simp
  moreover have "status_writes (effects (fst (handler ex_untitled_wrapped_env ex_request ex_world))) =
       [(JStr ''n1'', Some (JStr ''generating'')), (JStr ''n1'', Some (JStr ''failed''))]"
    using u [THEN conjunct2, THEN conjunct1] by simp
  ultimately show ?thesis using c gs ti by simp
qed

text \<open>
  Claim C6 as stated fails for the flattened shape: a flattened answer without a
  title is answered with "Invalid response format from web service", not with
  "No title in response from web service".
\<close>

theorem untitled_flat_answer_counterexample:
  "body (snd (handler ex_untitled_env ex_request ex_world)) =
     Json [(''error'', JStr ''Invalid response format from web service'')]
   \<and> body (snd (handler ex_untitled_env ex_request ex_world)) \<noteq>
     Json [(''error'', JStr ''No title in response from web service'')]"
  by (simp add: eval_defs ex_untitled_env_def)

section \<open>The content written on success\<close>

text \<open>
  Claim C7. The object written to the notebook with \<^verbatim>\<open>generation_status: 'completed'\<close>
  holds the title read from the service's answer and, for the other fields, the
  value read when it is truthy and else its default: null for the description, the
  placeholder glyph for the icon, 'gray' for the colour and the empty array for the
  example questions. In particular a field that the answer does not supply is
  written with its default, and when the store applies the write every notebook
  with that id carries the written values.
\<close>

theorem persisted_bundle_defaults:
  assumes "effects w = []"
    and "fetch_result e = Some resp" and "resp_json resp = Some g"
    and "NotebookUpdate nid p \<in> set (effects (fst (handler e req w)))"
    and "map_of p ''generation_status'' = Some (JStr ''completed'')"
  shows "p = [(''title'', get_prop (unwrapped g) ''title''),
              (''description'', js_or (get_prop (unwrapped g) ''summary'') JNull),
              (''icon'', js_or (get_prop (unwrapped g) ''notebook_icon'') (JStr memo_glyph)),
              (''color'', js_or (get_prop (unwrapped g) ''background_color'') (JStr ''gray'')),
              (''example_questions'',
                 js_or (get_prop (unwrapped g) ''example_questions'') (JArr [])),
              (''generation_status'', JStr ''completed'')]
    \<and> (get_prop (unwrapped g) ''summary'' = JUndefined \<longrightarrow>
          map_of p ''description'' = Some JNull)
    \<and> (get_prop (unwrapped g) ''notebook_icon'' = JUndefined \<longrightarrow>
          map_of p ''icon'' = Some (JStr memo_glyph))
    \<and> (get_prop (unwrapped g) ''background_color'' = JUndefined \<longrightarrow>
          map_of p ''color'' = Some (JStr ''gray''))
    \<and> (get_prop (unwrapped g) ''example_questions'' = JUndefined \<longrightarrow>
          map_of p ''example_questions'' = Some (JArr []))
    \<and> (write_completed e = Applied \<longrightarrow>
          (\<forall>c \<in> {''title'', ''description'', ''icon'', ''color'', ''example_questions''}.
             \<forall>v \<in> set (column_of c nid (fst (handler e req w))). v = map_of p c))"
proof -
  let ?f = "unwrapped g"
  let ?p = "content_patch (get_prop ?f ''title'') (get_prop ?f ''summary'')
      (get_prop ?f ''notebook_icon'') (get_prop ?f ''background_color'')
      (js_or (get_prop ?f ''example_questions'') (JArr []))"
  have nonopt: "req_method req \<noteq> ''OPTIONS''"
    using assms(1,4) handler_options [of req e w] by auto
  have ev: "(nid, Some (JStr ''completed'')) \<in> set (status_writes (effects (fst (handler e req w))))"
    using update_in_status_writes [OF assms(4)] assms(5) by simp
  have main: "p = ?p \<and> (write_completed e = Applied \<longrightarrow>
      notebooks (fst (handler e req w)) = apply_patch nid p (notebooks (started e nid w)))"
  proof (cases rule: run_cases [of e req w])
    case unreadable
    then show ?thesis using assms(1) ev handler_eq [OF nonopt unreadable]
      by (auto simp add: run_simps split: option.splits if_splits)
  next
    case (bad_request b)
    then show ?thesis using assms(1) ev handler_eq [OF nonopt bad_request(4)] by simp
  next
    case (no_config b)
    then show ?thesis using assms(1) ev handler_eq [OF nonopt no_config(5)] by simp
  next
    case (stopped b w1)
    then show ?thesis using assms(1) ev handler_eq [OF nonopt stopped(2)]
      by (auto simp add: run_simps split: option.splits if_splits)
  next
    case (failing b w2 msg)
    then show ?thesis using assms(1) ev handler_eq [OF nonopt, of e w]
      by (auto simp add: run_simps split: option.splits if_splits)
  next
    case (persisting b w3 resp' g')
    have g': "g' = g" using persisting(2,4) assms(2,3) by simp
    have old: "NotebookUpdate nid p \<notin> set (effects w3)"
      using update_in_status_writes [of nid p "effects w3"] assms(1,5) persisting(8) by auto
    have eff: "effects (fst (handler e req w)) = effects w3 @ [NotebookUpdate (get_prop b ''notebookId'') ?p]
        \<or> (\<exists>tail. effects (fst (handler e req w)) =
             effects w3 @ NotebookUpdate (get_prop b ''notebookId'') ?p # ReadBody # tail
             \<and> write_completed e = WriteThrows
             \<and> (\<forall>ev \<in> set tail. \<exists>n. ev = NotebookUpdate n (status_patch ''failed'')))"
      using persisting(5,6) g' handler_eq [OF nonopt, of e w]
      by (cases "write_completed e") (auto simp add: run_simps split: option.splits)
    then have same: "nid = get_prop b ''notebookId'' \<and> p = ?p"
      using assms(4,5) old by (fastforce simp add: status_patch_def)
    moreover have "notebooks (fst (handler e req w)) = apply_patch nid p (notebooks (started e nid w))"
      if "write_completed e = Applied"
      using that same persisting(5,6,7) g' handler_eq [OF nonopt, of e w]
      by (simp add: run_simps)
    ultimately show ?thesis by blast
  qed
  have cols: "write_completed e = Applied \<longrightarrow>
      (\<forall>c \<in> {''title'', ''description'', ''icon'', ''color'', ''example_questions''}.
         \<forall>v \<in> set (column_of c nid (fst (handler e req w))). v = map_of p c)"
  proof (rule impI, rule ballI)
    fix c
    assume applied: "write_completed e = Applied"
      and c: "c \<in> {''title'', ''description'', ''icon'', ''color'', ''example_questions''}"
    have nb: "notebooks (fst (handler e req w)) = apply_patch nid p (notebooks (started e nid w))"
      using main applied by blast
    have "p = ?p" using main by blast
    then obtain x where "map_of p c = Some x"
      using c by (auto simp add: content_patch_def)
    then show "\<forall>v \<in> set (column_of c nid (fst (handler e req w))). v = map_of p c"
      using column_of_applied [OF nb] by simp
  qed
  have p: "p = ?p" using main by blast
  have c1: "p = [(''title'', get_prop ?f ''title''),
              (''description'', js_or (get_prop ?f ''summary'') JNull),
              (''icon'', js_or (get_prop ?f ''notebook_icon'') (JStr memo_glyph)),
              (''color'', js_or (get_prop ?f ''background_color'') (JStr ''gray'')),
              (''example_questions'', js_or (get_prop ?f ''example_questions'') (JArr [])),
              (''generation_status'', JStr ''completed'')]"
    unfolding p content_patch_def by (simp add: js_or_def)
  have d1: "get_prop ?f ''summary'' = JUndefined \<longrightarrow> map_of p ''description'' = Some JNull"
    unfolding c1 by (simp add: js_or_def)
  have d2: "get_prop ?f ''notebook_icon'' = JUndefined \<longrightarrow>
      map_of p ''icon'' = Some (JStr memo_glyph)"
    unfolding c1 by (simp add: js_or_def)
  have d3: "get_prop ?f ''background_color'' = JUndefined \<longrightarrow>
      map_of p ''color'' = Some (JStr ''gray'')"
    unfolding c1 by (simp add: js_or_def)
  have d4: "get_prop ?f ''example_questions'' = JUndefined \<longrightarrow>
      map_of p ''example_questions'' = Some (JArr [])"
    unfolding c1 by (simp add: js_or_def)
  show ?thesis
    by (rule conjI [OF c1 conjI [OF d1 conjI [OF d2 conjI [OF d3 conjI [OF d4 cols]]]]])
qed

theorem persisted_bundle_defaults_witness:
  "NotebookUpdate (JStr ''n1'')
      [(''title'', JStr ''Doc''), (''description'', JNull), (''icon'', JStr memo_glyph),
       (''color'', JStr ''gray''), (''example_questions'', JArr []),
       (''generation_status'', JStr ''completed'')]
     \<in> set (effects (fst (handler ex_bare_env ex_request ex_world)))
   \<and> column_of ''description'' (JStr ''n1'') (fst (handler ex_bare_env ex_request ex_world)) =
       [Some JNull]
   \<and> column_of ''icon'' (JStr ''n1'') (fst (handler ex_bare_env ex_request ex_world)) =
       [Some (JStr memo_glyph)]
   \<and> column_of ''color'' (JStr ''n1'') (fst (handler ex_bare_env ex_request ex_world)) =
       [Some (JStr ''gray'')]
   \<and> column_of ''example_questions'' (JStr ''n1'')
        (fst (handler ex_bare_env ex_request ex_world)) = [Some (JArr [])]"
proof -
  let ?p = "[(''title'', JStr ''Doc''), (''description'', JNull), (''icon'', JStr memo_glyph),
       (''color'', JStr ''gray''), (''example_questions'', JArr []),
       (''generation_status'', JStr ''completed'')]"
  have w: "effects ex_world = []" by (simp add: ex_world_def)
  have f: "fetch_result ex_bare_env =
      Some (ex_service\<lparr>resp_json := Some (JObj [(''title'', JStr ''Doc'')])\<rparr>)"
    by (simp add: ex_bare_env_def)
  have j: "resp_json (ex_service\<lparr>resp_json := Some (JObj [(''title'', JStr ''Doc'')])\<rparr>) =
      Some (JObj [(''title'', JStr ''Doc'')])"
    by simp
  have ev: "NotebookUpdate (JStr ''n1'') ?p
      \<in> set (effects (fst (handler ex_bare_env ex_request ex_world)))"
    by (simp add: eval_defs ex_bare_env_def)
  have gs: "map_of ?p ''generation_status'' = Some (JStr ''completed'')" by simp
  have a: "write_completed ex_bare_env = Applied" by (simp add: ex_bare_env_def ex_env_def)
  have l: "length (column_of c (JStr ''n1'') (fst (handler ex_bare_env ex_request ex_world))) = 1"
    for c
    by (simp add: eval_defs ex_bare_env_def)
  have one: "xs = [v]" if "length xs = 1" "\<forall>x \<in> set xs. x = v" for xs :: "jsval option list" and v
    using that by (cases xs) auto
  note t = persisted_bundle_defaults [OF w f j ev gs]
  note cols = t [THEN conjunct2, THEN conjunct2, THEN conjunct2, THEN conjunct2,
      THEN conjunct2, THEN mp, OF a]
  have "column_of ''description'' (JStr ''n1'') (fst (handler ex_bare_env ex_request ex_world)) =
      [Some JNull]"
    using cols by (intro one [OF l]) simp
  moreover have "column_of ''icon'' (JStr ''n1'') (fst (handler ex_bare_env ex_request ex_world)) =
      [Some (JStr memo_glyph)]"
    using cols by (intro one [OF l]) simp
  moreover have "column_of ''color'' (JStr ''n1'') (fst (handler ex_bare_env ex_request ex_world)) =
      [Some (JStr ''gray'')]"
    using cols by (intro one [OF l]) simp
  moreover have "column_of ''example_questions'' (JStr ''n1'')
      (fst (handler ex_bare_env ex_request ex_world)) = [Some (JArr [])]"
    using cols by (intro one [OF l]) simp
  ultimately show ?thesis using ev by simp
qed

section \<open>Persist failure\<close>

text \<open>
  Claim C8. When the write of the content and of \<^verbatim>\<open>generation_status: 'completed'\<close>
  is issued and the store answers it with an error, the handler returns status 500
  with the body \<^verbatim>\<open>{ error: "Failed to update notebook" }\<close>; the store writes of the
  run are the 'generating' write and that rejected write, in this order, so no
  'failed' write is made; and the notebooks are as the 'generating' write left them.
\<close>

theorem persist_failure_not_marked_failed:
  assumes "effects w = []"
    and "(nid, Some (JStr ''completed'')) \<in> set (status_writes (effects (fst (handler e req w))))"
    and "write_completed e = Rejected"
  shows "snd (handler e req w) = error_response 500 ''Failed to update notebook''
    \<and> status (snd (handler e req w)) = 500
    \<and> body (snd (handler e req w)) = Json [(''error'', JStr ''Failed to update notebook'')]
    \<and> status_writes (effects (fst (handler e req w))) =
        [(nid, Some (JStr ''generating'')), (nid, Some (JStr ''completed''))]
    \<and> (nid, Some (JStr ''failed'')) \<notin> set (status_writes (effects (fst (handler e req w))))
    \<and> notebooks (fst (handler e req w)) = notebooks (started e nid w)"
proof -
  have nonopt: "req_method req \<noteq> ''OPTIONS''"
    using assms(1,2) handler_options [of req e w] by auto
  show ?thesis
  proof (cases rule: run_cases [of e req w])
    case unreadable
    then show ?thesis using assms handler_eq [OF nonopt unreadable]
      by (auto simp add: run_simps split: option.splits if_splits)
  next
    case (bad_request b)
    then show ?thesis using assms handler_eq [OF nonopt bad_request(4)] by simp
  next
    case (no_config b)
    then show ?thesis using assms handler_eq [OF nonopt no_config(5)] by simp
  next
    case (stopped b w1)
    then show ?thesis using assms handler_eq [OF nonopt stopped(2)]
      by (auto simp add: run_simps split: option.splits if_splits)
  next
    case (failing b w2 msg)
    then show ?thesis using assms(1,2) handler_eq [OF nonopt, of e w]
      by (auto simp add: run_simps split: option.splits if_splits)
  next
    case (persisting b w3 resp g)
    then show ?thesis using assms handler_eq [OF nonopt, of e w]
      by (auto simp add: run_simps)
  qed
qed

theorem persist_failure_not_marked_failed_witness:
  "write_completed (ex_env\<lparr>write_completed := Rejected\<rparr>) = Rejected
   \<and> body (snd (handler (ex_env\<lparr>write_completed := Rejected\<rparr>) ex_request ex_world)) =
       Json [(''error'', JStr ''Failed to update notebook'')]
   \<and> status_writes (effects (fst (handler (ex_env\<lparr>write_completed := Rejected\<rparr>)
        ex_request ex_world))) =
       [(JStr ''n1'', Some (JStr ''generating'')), (JStr ''n1'', Some (JStr ''completed''))]
   \<and> column_of ''generation_status'' (JStr ''n1'')
        (fst (handler (ex_env\<lparr>write_completed := Rejected\<rparr>) ex_request ex_world)) =
       [Some (JStr ''generating'')]"
proof -
  let ?e = "ex_env\<lparr>write_completed := Rejected\<rparr>"
  have w: "effects ex_world = []" by (simp add: ex_world_def)
  have c: "(JStr ''n1'', Some (JStr ''completed'')) \<in>
      set (status_writes (effects (fst (handler ?e ex_request ex_world))))"
    by (simp add: eval_defs)
  have r: "write_completed ?e = Rejected" by simp
  have s: "column_of ''generation_status'' (JStr ''n1'') (fst (handler ?e ex_request ex_world)) =
      [Some (JStr ''generating'')]"
    by (simp add: eval_defs)
  show ?thesis
    using s persist_failure_not_marked_failed [OF w c r] by simp
qed

section \<open>The top-level catch\<close>

text \<open>
  Claim C9. Whenever an exception escapes the try block, the handler reads the
  request body a second time; if that yields a truthy \<^verbatim>\<open>notebookId\<close> and the store
  client can be created it writes \<^verbatim>\<open>generation_status: 'failed'\<close> for that notebook,
  and otherwise writes nothing; whatever happens in that attempt (the body cannot
  be read, the client cannot be created, the write is rejected or throws), the
  handler returns status 500 with the body \<^verbatim>\<open>{ error: "Internal server error" }\<close>.
\<close>

theorem uncaught_exception_handled:
  assumes "req_method req \<noteq> ''OPTIONS''" and "try_block e req w = (w1, None)"
  shows "snd (handler e req w) = error_response 500 ''Internal server error''
    \<and> status (snd (handler e req w)) = 500
    \<and> body (snd (handler e req w)) = Json [(''error'', JStr ''Internal server error'')]
    \<and> effects (fst (handler e req w)) =
        effects w1 @ ReadBody #
          (case json_second req of
             None \<Rightarrow> []
           | Some b \<Rightarrow>
               if truthy (get_prop b ''notebookId'') \<and> client_second e
               then [NotebookUpdate (get_prop b ''notebookId'') (status_patch ''failed'')]
               else [])
    \<and> notebooks (fst (handler e req w)) =
        (case json_second req of
           None \<Rightarrow> notebooks w1
         | Some b \<Rightarrow>
             if truthy (get_prop b ''notebookId'') \<and> client_second e \<and> write_catch e = Applied
             then apply_patch (get_prop b ''notebookId'') (status_patch ''failed'') (notebooks w1)
             else notebooks w1)"
  using handler_eq [OF assms]
  by (cases "json_second req") (simp_all add: catch_cleanup_eq)

theorem uncaught_exception_handled_witness:
  "snd (try_block (ex_env\<lparr>fetch_result := None\<rparr>)
      (ex_request\<lparr>json_second := Some (JObj [(''notebookId'', JStr ''n1'')])\<rparr>) ex_world) = None
   \<and> body (snd (handler (ex_env\<lparr>fetch_result := None\<rparr>)
        (ex_request\<lparr>json_second := Some (JObj [(''notebookId'', JStr ''n1'')])\<rparr>) ex_world)) =
       Json [(''error'', JStr ''Internal server error'')]
   \<and> status_writes (effects (fst (handler (ex_env\<lparr>fetch_result := None\<rparr>)
        (ex_request\<lparr>json_second := Some (JObj [(''notebookId'', JStr ''n1'')])\<rparr>) ex_world))) =
       [(JStr ''n1'', Some (JStr ''generating'')), (JStr ''n1'', Some (JStr ''failed''))]"
proof -
  let ?e = "ex_env\<lparr>fetch_result := None\<rparr>"
  let ?req = "ex_request\<lparr>json_second := Some (JObj [(''notebookId'', JStr ''n1'')])\<rparr>"
  have t: "snd (try_block ?e ?req ex_world) = None"
    by (simp add: try_block_def resolve_def select_single_def call_service_def Let_def
        select_latest_def matching_def project_def column_def opt_prop_def nullish_def
        env_truthy_def ex_env_def ex_request_def ex_world_def ex_sources_def)
  then have t': "try_block ?e ?req ex_world = (fst (try_block ?e ?req ex_world), None)"
    by (metis prod.collapse)
  have w1: "status_writes (effects (fst (try_block ?e ?req ex_world))) =
      [(JStr ''n1'', Some (JStr ''generating''))]"
    by (simp add: try_block_def resolve_def select_single_def call_service_def Let_def
        select_latest_def matching_def project_def column_def opt_prop_def nullish_def
        env_truthy_def ex_env_def ex_request_def ex_world_def ex_sources_def)
  show ?thesis
    using t w1 uncaught_exception_handled [of ?req ?e ex_world, OF _ t']
    by (simp add: ex_request_def ex_env_def)
qed

section \<open>The success response\<close>

text \<open>
  Claim C10. On the success path (status 200) the response body carries the values
  read from the service's answer, not the values written to the notebook: the title,
  the summary as \<^verbatim>\<open>description\<close>, the icon, the colour, and the example questions
  (already defaulted to the empty array when read). A property whose value is
  \<^verbatim>\<open>undefined\<close> is left out of the body. So when the answer omits the icon, the
  colour or the description, the body has no such property while the notebook
  written by the same run holds the placeholder glyph, 'gray' or null.
\<close>

theorem success_body_echoes_raw:
  assumes "req_method req \<noteq> ''OPTIONS''"
    and "json_first req = Some b"
    and "fetch_result e = Some resp" and "resp_json resp = Some g"
    and "status (snd (handler e req w)) = 200"
  shows "body (snd (handler e req w)) =
      Json (stringify_obj
        [(''success'', JBool True),
         (''title'', get_prop (unwrapped g) ''title''),
         (''description'', get_prop (unwrapped g) ''summary''),
         (''icon'', get_prop (unwrapped g) ''notebook_icon''),
         (''color'', get_prop (unwrapped g) ''background_color''),
         (''exampleQuestions'', js_or (get_prop (unwrapped g) ''example_questions'') (JArr [])),
         (''message'', JStr ''Notebook content generated successfully'')])
    \<and> (get_prop (unwrapped g) ''summary'' = JUndefined \<longrightarrow>
          map_of (body_fields (snd (handler e req w))) ''description'' = None
          \<and> (\<forall>v \<in> set (column_of ''description'' (get_prop b ''notebookId'')
                 (fst (handler e req w))). v = Some JNull))
    \<and> (get_prop (unwrapped g) ''notebook_icon'' = JUndefined \<longrightarrow>
          map_of (body_fields (snd (handler e req w))) ''icon'' = None
          \<and> (\<forall>v \<in> set (column_of ''icon'' (get_prop b ''notebookId'')
                 (fst (handler e req w))). v = Some (JStr memo_glyph)))
    \<and> (get_prop (unwrapped g) ''background_color'' = JUndefined \<longrightarrow>
          map_of (body_fields (snd (handler e req w))) ''color'' = None
          \<and> (\<forall>v \<in> set (column_of ''color'' (get_prop b ''notebookId'')
                 (fst (handler e req w))). v = Some (JStr ''gray'')))"
proof -
  let ?f = "unwrapped g"
  let ?nid = "get_prop b ''notebookId''"
  let ?t = "get_prop ?f ''title''" and ?d = "get_prop ?f ''summary''"
  let ?i = "get_prop ?f ''notebook_icon''" and ?c = "get_prop ?f ''background_color''"
  let ?q = "js_or (get_prop ?f ''example_questions'') (JArr [])"
  let ?obj = "[(''success'', JBool True), (''title'', ?t), (''description'', ?d),
      (''icon'', ?i), (''color'', ?c), (''exampleQuestions'', ?q),
      (''message'', JStr ''Notebook content generated successfully'')]"
  have main: "snd (handler e req w) = json_response 200 ?obj
      \<and> notebooks (fst (handler e req w)) =
          apply_patch ?nid (content_patch ?t ?d ?i ?c ?q) (notebooks (started e ?nid w))"
  proof (cases rule: run_cases [of e req w])
    case unreadable
    then show ?thesis using assms(5) handler_eq [OF assms(1) unreadable] by simp
  next
    case (bad_request b')
    then show ?thesis using assms(5) handler_eq [OF assms(1) bad_request(4)] by simp
  next
    case (no_config b')
    then show ?thesis using assms(5) handler_eq [OF assms(1) no_config(5)] by simp
  next
    case (stopped b' w1)
    then show ?thesis using assms(5) handler_eq [OF assms(1) stopped(2)] by simp
  next
    case (failing b' w2 msg)
    then show ?thesis using assms(5) handler_eq [OF assms(1), of e w]
      by (cases "write_failed e = WriteThrows") (simp_all add: run_simps)
  next
    case (persisting b' w3 resp' g')
    have same: "g' = g" "b' = b" using persisting(1,2,4) assms(2,3,4) by simp_all
    show ?thesis using persisting(5,6,7) assms(5) handler_eq [OF assms(1), of e w]
      unfolding same
      by (cases "write_completed e") (simp_all add: run_simps)
  qed
  have body: "body (snd (handler e req w)) = Json (stringify_obj ?obj)"
    using main by (simp add: json_response_def)
  have fields: "body_fields (snd (handler e req w)) = stringify_obj ?obj"
    using body by (simp add: body_fields_def)
  have nb: "notebooks (fst (handler e req w)) =
      apply_patch ?nid (content_patch ?t ?d ?i ?c ?q) (notebooks (started e ?nid w))"
    using main by blast
  have d: "?d = JUndefined \<longrightarrow>
      map_of (body_fields (snd (handler e req w))) ''description'' = None
      \<and> (\<forall>v \<in> set (column_of ''description'' ?nid (fst (handler e req w))). v = Some JNull)"
  proof (rule impI, rule conjI)
    assume u: "?d = JUndefined"
    show "map_of (body_fields (snd (handler e req w))) ''description'' = None"
      unfolding fields using u by (simp add: stringify_obj_def)
    show "\<forall>v \<in> set (column_of ''description'' ?nid (fst (handler e req w))). v = Some JNull"
      using u by (intro column_of_applied [OF nb]) (simp add: content_patch_def js_or_def)
  qed
  have i: "?i = JUndefined \<longrightarrow>
      map_of (body_fields (snd (handler e req w))) ''icon'' = None
      \<and> (\<forall>v \<in> set (column_of ''icon'' ?nid (fst (handler e req w))). v = Some (JStr memo_glyph))"
  proof (rule impI, rule conjI)
    assume u: "?i = JUndefined"
    show "map_of (body_fields (snd (handler e req w))) ''icon'' = None"
      unfolding fields using u by (simp add: stringify_obj_def)
    show "\<forall>v \<in> set (column_of ''icon'' ?nid (fst (handler e req w))). v = Some (JStr memo_glyph)"
      using u by (intro column_of_applied [OF nb]) (simp add: content_patch_def js_or_def)
  qed
  have c: "?c = JUndefined \<longrightarrow>
      map_of (body_fields (snd (handler e req w))) ''color'' = None
      \<and> (\<forall>v \<in> set (column_of ''color'' ?nid (fst (handler e req w))). v = Some (JStr ''gray''))"
  proof (rule impI, rule conjI)
    assume u: "?c = JUndefined"
    show "map_of (body_fields (snd (handler e req w))) ''color'' = None"
      unfolding fields using u by (simp add: stringify_obj_def)
    show "\<forall>v \<in> set (column_of ''color'' ?nid (fst (handler e req w))). v = Some (JStr ''gray'')"
      using u by (intro column_of_applied [OF nb]) (simp add: content_patch_def js_or_def)
  qed
  show ?thesis
    by (rule conjI [OF body conjI [OF d conjI [OF i c]]])
qed

theorem success_body_echoes_raw_witness:
  "status (snd (handler ex_bare_env ex_request ex_world)) = 200
   \<and> body (snd (handler ex_bare_env ex_request ex_world)) =
       Json [(''success'', JBool True), (''title'', JStr ''Doc''),
             (''exampleQuestions'', JArr []),
             (''message'', JStr ''Notebook content generated successfully'')]
   \<and> map_of (body_fields (snd (handler ex_bare_env ex_request ex_world))) ''icon'' = None
   \<and> column_of ''icon'' (JStr ''n1'') (fst (handler ex_bare_env ex_request ex_world)) =
       [Some (JStr memo_glyph)]"
proof -
  have m: "req_method ex_request \<noteq> ''OPTIONS''" by (simp add: ex_request_def)
  have b: "json_first ex_request =
      Some (JObj [(''notebookId'', JStr ''n1''), (''sourceType'', JStr ''text'')])"
    by (simp add: ex_request_def)
  have f: "fetch_result ex_bare_env =
      Some (ex_service\<lparr>resp_json := Some (JObj [(''title'', JStr ''Doc'')])\<rparr>)"
    by (simp add: ex_bare_env_def)
  have j: "resp_json (ex_service\<lparr>resp_json := Some (JObj [(''title'', JStr ''Doc'')])\<rparr>) =
      Some (JObj [(''title'', JStr ''Doc'')])"
    by simp
  have s: "status (snd (handler ex_bare_env ex_request ex_world)) = 200"
    by (simp add: eval_defs ex_bare_env_def)
  have col: "column_of ''icon'' (JStr ''n1'') (fst (handler ex_bare_env ex_request ex_world)) =
      [Some (JStr memo_glyph)]"
    by (simp add: eval_defs ex_bare_env_def)
  note t = success_body_echoes_raw [OF m b f j s]
  have body: "body (snd (handler ex_bare_env ex_request ex_world)) =
       Json [(''success'', JBool True), (''title'', JStr ''Doc''),
             (''exampleQuestions'', JArr []),
             (''message'', JStr ''Notebook content generated successfully'')]"
    using t [THEN conjunct1] by (simp add: unwrapped_def stringify_obj_def js_or_def)
  have "map_of (body_fields (snd (handler ex_bare_env ex_request ex_world))) ''icon'' = None"
    using t [THEN conjunct2, THEN conjunct2, THEN conjunct1] by (simp add: unwrapped_def)
  then show ?thesis using s body col by simp
qed

end
